theory Spec2Isabelle
  imports Complex_Main "HOL-Library.Sublist" "HOL-Library.Multiset"
begin

section \<open>JavaScript strings\<close>

text \<open>
  A JavaScript string is modelled as a \<^typ>\<open>string\<close>, a list of characters; the
  characters of the model are the code units below 256. The functions of this section are
  the built-in string methods that \<^verbatim>\<open>src/lib/github.ts\<close> calls, with the behaviour
  that ECMAScript gives them for string (not regular-expression) arguments.
\<close>

definition startsWith :: "string \<Rightarrow> string \<Rightarrow> bool" where
  "startsWith s p = prefix p s"

text \<open>\<^verbatim>\<open>s.includes(p)\<close>: \<open>p\<close> occurs in \<open>s\<close>; the empty string occurs in every string.\<close>

fun includesStr :: "string \<Rightarrow> string \<Rightarrow> bool" where
  "includesStr [] p = (p = [])"
| "includesStr (c # cs) p = (prefix p (c # cs) \<or> includesStr cs p)"

text \<open>\<^verbatim>\<open>s.indexOf(p)\<close>, with \<open>None\<close> for \<^verbatim>\<open>-1\<close>.\<close>

fun indexOf :: "string \<Rightarrow> string \<Rightarrow> nat option" where
  "indexOf [] p = (if p = [] then Some 0 else None)"
| "indexOf (c # cs) p = (if prefix p (c # cs) then Some 0 else map_option Suc (indexOf cs p))"

text \<open>
  \<^verbatim>\<open>s.split(sep)\<close> without a limit. For a non-empty separator the string is cut at the
  occurrences of the separator found from left to right, each search starting after the
  previous occurrence. For the empty separator the result is the list of the code units of
  \<open>s\<close>, which is empty for the empty string.
\<close>

fun splitAux :: "string \<Rightarrow> string \<Rightarrow> string \<Rightarrow> string list" where
  "splitAux sep acc [] = [acc]"
| "splitAux sep acc (c # cs) =
     (if sep \<noteq> [] \<and> prefix sep (c # cs)
      then acc # splitAux sep [] (drop (length sep - 1) cs)
      else splitAux sep (acc @ [c]) cs)"

definition splitStr :: "string \<Rightarrow> string \<Rightarrow> string list" where
  "splitStr s sep = (if sep = [] then map (\<lambda>c. [c]) s else splitAux sep [] s)"

text \<open>\<^verbatim>\<open>parts.join(sep)\<close>.\<close>

fun joinStr :: "string list \<Rightarrow> string \<Rightarrow> string" where
  "joinStr [] sep = []"
| "joinStr [x] sep = x"
| "joinStr (x # y # ys) sep = x @ sep @ joinStr (y # ys) sep"

text \<open>
  The replacement text of \<^verbatim>\<open>s.replace(pattern, replacement)\<close> is not taken literally:
  ECMAScript's GetSubstitution expands the dollar patterns of the replacement. With a string
  pattern there are no capture groups, so \<^verbatim>\<open>$$\<close> stands for one dollar sign,
  \<^verbatim>\<open>$&\<close> for the matched text, \<^verbatim>\<open>$`\<close> for the text before the match,
  \<^verbatim>\<open>$'\<close> for the text after it, and every other character (also a dollar sign
  followed by a digit or by \<^verbatim>\<open><\<close>) stands for itself.
\<close>

fun getSubstitution :: "string \<Rightarrow> string \<Rightarrow> nat \<Rightarrow> string \<Rightarrow> string" where
  "getSubstitution matched str position [] = []"
| "getSubstitution matched str position [c] = [c]"
| "getSubstitution matched str position (c # d # t) =
     (if c = CHR ''$'' \<and> d = CHR ''$'' then CHR ''$'' # getSubstitution matched str position t
      else if c = CHR ''$'' \<and> d = CHR 0x60 then take position str @ getSubstitution matched str position t
      else if c = CHR ''$'' \<and> d = CHR ''&'' then matched @ getSubstitution matched str position t
      else if c = CHR ''$'' \<and> d = CHR 0x27
        then drop (position + length matched) str @ getSubstitution matched str position t
      else c # getSubstitution matched str position (d # t))"

text \<open>
  \<^verbatim>\<open>s.replace(pat, rep)\<close> with a string pattern: only the first occurrence is replaced,
  and a string without the pattern is returned as it is.
\<close>

definition replaceStr :: "string \<Rightarrow> string \<Rightarrow> string \<Rightarrow> string" where
  "replaceStr s pat rep =
     (case indexOf s pat of
        None \<Rightarrow> s
      | Some pos \<Rightarrow> take pos s @ getSubstitution pat s pos rep @ drop (pos + length pat) s)"

text \<open>Decimal rendering of a number inside a template literal.\<close>

fun decimal :: "nat \<Rightarrow> string" where
  "decimal n = (if n < 10 then [char_of (n + 48)] else decimal (n div 10) @ [char_of (n mod 10 + 48)])"

definition numberToString :: "int \<Rightarrow> string" where
  "numberToString i = (if i < 0 then CHR ''-'' # decimal (nat (- i)) else decimal (nat i))"


section \<open>Regular expressions of the import scanner\<close>

text \<open>
  The two regular expressions of \<^verbatim>\<open>parseImports\<close> are built from literals, single
  characters of a class, and greedy repetitions of a class. Each piece is a backtracking
  matcher in the style of the ECMAScript specification: it consumes a prefix of the input and
  hands the rest to its continuation, and a greedy repetition tries the longest run first and
  gives characters back while the continuation fails.
\<close>

definition isSpace :: "char \<Rightarrow> bool" where
  "isSpace c = (c \<in> set [CHR 0x09, CHR 0x0A, CHR 0x0B, CHR 0x0C, CHR 0x0D, CHR 0x20, CHR 0xA0])"

definition notNewline :: "char \<Rightarrow> bool" where
  "notNewline c = (c \<noteq> CHR 0x0A \<and> c \<noteq> CHR 0x0D)"

definition isQuote :: "char \<Rightarrow> bool" where
  "isQuote c = (c = CHR 0x27 \<or> c = CHR 0x22)"

definition lit :: "string \<Rightarrow> (string \<Rightarrow> 'a option) \<Rightarrow> string \<Rightarrow> 'a option" where
  "lit l k s = (if prefix l s then k (drop (length l) s) else None)"

fun cls :: "(char \<Rightarrow> bool) \<Rightarrow> (string \<Rightarrow> 'a option) \<Rightarrow> string \<Rightarrow> 'a option" where
  "cls p k [] = None"
| "cls p k (c # cs) = (if p c then k cs else None)"

fun star :: "(char \<Rightarrow> bool) \<Rightarrow> (string \<Rightarrow> 'a option) \<Rightarrow> string \<Rightarrow> 'a option" where
  "star p k [] = k []"
| "star p k (c # cs) =
     (if p c then (case star p k cs of Some r \<Rightarrow> Some r | None \<Rightarrow> k (c # cs)) else k (c # cs))"

fun plus :: "(char \<Rightarrow> bool) \<Rightarrow> (string \<Rightarrow> 'a option) \<Rightarrow> string \<Rightarrow> 'a option" where
  "plus p k [] = None"
| "plus p k (c # cs) = (if p c then star p k cs else None)"

text \<open>The capturing group \<^verbatim>\<open>([^'"]+)\<close>: the continuation also gets the captured text.\<close>

fun captureStar ::
  "(char \<Rightarrow> bool) \<Rightarrow> (string \<Rightarrow> string \<Rightarrow> 'a option) \<Rightarrow> string \<Rightarrow> string \<Rightarrow> 'a option" where
  "captureStar p k acc [] = k acc []"
| "captureStar p k acc (c # cs) =
     (if p c
      then (case captureStar p k (acc @ [c]) cs of Some r \<Rightarrow> Some r | None \<Rightarrow> k acc (c # cs))
      else k acc (c # cs))"

fun capturePlus ::
  "(char \<Rightarrow> bool) \<Rightarrow> (string \<Rightarrow> string \<Rightarrow> 'a option) \<Rightarrow> string \<Rightarrow> 'a option" where
  "capturePlus p k [] = None"
| "capturePlus p k (c # cs) = (if p c then captureStar p k [c] cs else None)"

text \<open>
  A match of a regular expression at the start of \<open>s\<close>: the text of group 1 and the number
  of characters matched.
\<close>

definition quoted :: "(string \<Rightarrow> string \<Rightarrow> 'a option) \<Rightarrow> string \<Rightarrow> 'a option" where
  "quoted k = cls isQuote (capturePlus (\<lambda>c. \<not> isQuote c) (\<lambda>cap. cls isQuote (k cap)))"

text \<open>\<^verbatim>\<open>/import\s+.*\s+from\s+['"]([^'"]+)['"]/\<close>\<close>

definition importRegex :: "string \<Rightarrow> (string \<times> nat) option" where
  "importRegex s =
     lit ''import'' (plus isSpace (star notNewline (plus isSpace (lit ''from'' (plus isSpace
       (quoted (\<lambda>cap rest. Some (cap, length s - length rest)))))))) s"

text \<open>\<^verbatim>\<open>/require\s*\(['"]([^'"]+)['"]\)/\<close>\<close>

definition requireRegex :: "string \<Rightarrow> (string \<times> nat) option" where
  "requireRegex s =
     lit ''require'' (star isSpace (lit ''('' (quoted (\<lambda>cap. lit '')''
       (\<lambda>rest. Some (cap, length s - length rest)))))) s"

text \<open>
  The loop \<^verbatim>\<open>while ((match = regex.exec(content)) !== null)\<close> of a global regular
  expression: the leftmost match from the current position is taken, its group 1 is
  collected, and the search goes on behind the match. \<open>skip\<close> counts the characters of the
  last match that are still to be passed over. Both expressions match at least seven
  characters, so no match is found at the end of the input.
\<close>

fun execAll :: "(string \<Rightarrow> (string \<times> nat) option) \<Rightarrow> nat \<Rightarrow> string \<Rightarrow> string list" where
  "execAll regex skip [] = []"
| "execAll regex (Suc skip) (c # cs) = execAll regex skip cs"
| "execAll regex 0 (c # cs) =
     (case regex (c # cs) of
        Some (cap, len) \<Rightarrow> cap # execAll regex (len - 1) cs
      | None \<Rightarrow> execAll regex 0 cs)"


section \<open>Import resolution (\<^verbatim>\<open>src/lib/github.ts\<close>)\<close>

text \<open>
  The loop of \<^verbatim>\<open>resolveImportPath\<close> over the path segments; \<^verbatim>\<open>pop\<close> on an empty
  array leaves it empty.
\<close>

fun resolveParts :: "string list \<Rightarrow> string list \<Rightarrow> string list" where
  "resolveParts resolved [] = resolved"
| "resolveParts resolved (part # parts) =
     (if part = ''..'' then resolveParts (butlast resolved) parts
      else if part \<noteq> ''.'' \<and> part \<noteq> '''' then resolveParts (resolved @ [part]) parts
      else resolveParts resolved parts)"

definition resolveImportPath :: "string \<Rightarrow> string \<Rightarrow> string" where
  "resolveImportPath importPath currentPath =
     (if startsWith importPath ''./'' \<or> startsWith importPath ''../''
      then let currentDir = joinStr (butlast (splitStr currentPath ''/'')) ''/'';
               parts = splitStr currentDir ''/'' @ splitStr importPath ''/''
           in joinStr (resolveParts [] parts) ''/''
      else importPath)"

definition parseImports :: "string \<Rightarrow> string \<Rightarrow> string list" where
  "parseImports content currentPath =
     (let imports = map (\<lambda>m. resolveImportPath m currentPath) (execAll importRegex 0 content)
                  @ map (\<lambda>m. resolveImportPath m currentPath) (execAll requireRegex 0 content)
      in filter (\<lambda>i. startsWith i ''./'' \<or> startsWith i ''../'' \<or> startsWith i ''/'') imports)"


section \<open>The remote repository\<close>

text \<open>
  A rejected promise or a thrown exception is a value \<open>Error msg\<close>; \<open>msg\<close> is what
  \<^verbatim>\<open>error.message\<close> reads.
\<close>

datatype error = Error string

fun message :: "error \<Rightarrow> string" where
  "message (Error m) = m"

record RepoFile =
  path :: string
  content :: string
  sha :: string

text \<open>
  What \<^verbatim>\<open>octokit.rest.repos.getContent\<close> answers: an array for a directory, or one
  object with its \<^verbatim>\<open>type\<close>, its content (here already decoded from base64) and its
  blob hash.
\<close>

datatype contentData = Listing | Item string string string

text \<open>
  The client \<^verbatim>\<open>GitHubClient\<close> holds \<^verbatim>\<open>owner\<close>, \<^verbatim>\<open>repo\<close> and the
  authenticated \<^verbatim>\<open>octokit\<close> object. The remote service is outside this repository: its
  state is a value of an arbitrary type \<open>'w\<close>, and the three remote calls that the
  modelled code makes are fields of the client. Reading and searching leave the remote state
  as it is; a write returns the new remote state together with the error, if the call was
  rejected. Nothing else is assumed about the service.
\<close>

record 'w GitHubClient =
  owner :: string
  repo :: string
  getContent :: "'w \<Rightarrow> string \<Rightarrow> string \<Rightarrow> string \<Rightarrow> string \<Rightarrow> error + contentData"
  createOrUpdateFileContents ::
    "'w \<Rightarrow> string \<Rightarrow> string \<Rightarrow> string \<Rightarrow> string \<Rightarrow> string \<Rightarrow> string \<Rightarrow> string option \<Rightarrow> error option \<times> 'w"
  searchCode :: "'w \<Rightarrow> string \<Rightarrow> error + string list"

definition getFileContent :: "'w GitHubClient \<Rightarrow> 'w \<Rightarrow> string \<Rightarrow> string \<Rightarrow> error + RepoFile" where
  "getFileContent gh w p branch =
     (case getContent gh w (owner gh) (repo gh) p branch of
        Inl e \<Rightarrow> Inl e
      | Inr Listing \<Rightarrow> Inl (Error (''Path '' @ p @ '' is not a file''))
      | Inr (Item ty c s) \<Rightarrow>
          if ty \<noteq> ''file'' then Inl (Error (''Path '' @ p @ '' is not a file''))
          else Inr \<lparr>path = p, content = c, sha = s\<rparr>)"

text \<open>\<^verbatim>\<open>updateFile(path, content, message, branch, sha?)\<close>; \<open>None\<close> is a call without \<^verbatim>\<open>sha\<close>.\<close>

definition updateFile ::
  "'w GitHubClient \<Rightarrow> 'w \<Rightarrow> string \<Rightarrow> string \<Rightarrow> string \<Rightarrow> string \<Rightarrow> string option \<Rightarrow> error option \<times> 'w" where
  "updateFile gh w p c msg branch s =
     createOrUpdateFileContents gh w (owner gh) (repo gh) p msg c branch s"

definition searchFiles :: "'w GitHubClient \<Rightarrow> 'w \<Rightarrow> string \<Rightarrow> error + string list" where
  "searchFiles gh w query =
     searchCode gh w (query @ '' repo:'' @ owner gh @ ''/'' @ repo gh)"


section \<open>The edit applier \<^verbatim>\<open>applyStrReplace\<close>\<close>

datatype resultValue = Text string | Paths "string list"

record ToolResult =
  success :: bool
  result :: "resultValue option"
  error :: "string option"

definition succeeded :: ToolResult where
  "succeeded = \<lparr>success = True, result = None, error = None\<rparr>"

definition failed :: "string \<Rightarrow> ToolResult" where
  "failed msg = \<lparr>success = False, result = None, error = Some msg\<rparr>"

definition notFoundMessage :: "string \<Rightarrow> string" where
  "notFoundMessage p = ''String not found in '' @ p @ ''. Make sure the string is unique and exact.''"

definition ambiguousMessage :: "int \<Rightarrow> string \<Rightarrow> string" where
  "ambiguousMessage occurrences p =
     ''String found '' @ numberToString occurrences @ '' times in '' @ p
       @ ''. It must be unique for safe replacement.''"

text \<open>
  \<^verbatim>\<open>applyStrReplace\<close> returns its result object and leaves the remote state that the write
  produced. The whole body is inside \<^verbatim>\<open>try\<close>: a failing read or write becomes a result
  with the error's message.
\<close>

definition applyStrReplace ::
  "'w GitHubClient \<Rightarrow> 'w \<Rightarrow> string \<Rightarrow> string \<Rightarrow> string \<Rightarrow> string \<Rightarrow> ToolResult \<times> 'w" where
  "applyStrReplace gh w p oldStr newStr branch =
     (case getFileContent gh w p branch of
        Inl e \<Rightarrow> (failed (message e), w)
      | Inr file \<Rightarrow>
          if \<not> includesStr (content file) oldStr then (failed (notFoundMessage p), w)
          else
            let occurrences = int (length (splitStr (content file) oldStr)) - 1 in
            if occurrences > 1 then (failed (ambiguousMessage occurrences p), w)
            else
              let newContent = replaceStr (content file) oldStr newStr in
              (case updateFile gh w p newContent (''Edit '' @ p) branch (Some (sha file)) of
                 (Some e, w') \<Rightarrow> (failed (message e), w')
               | (None, w') \<Rightarrow> (succeeded, w')))"


section \<open>An in-memory repository for the worked examples\<close>

text \<open>
  The examples run the code against a small stand-in for the remote service: the state maps
  a path to the content and blob hash of the file there. A write to an existing file must
  name its current hash, a write to a new path must name none, and the hash of written
  content is derived from the content.
\<close>

type_synonym store = "string \<rightharpoonup> string \<times> string"

definition hashOf :: "string \<Rightarrow> string" where
  "hashOf c = ''#'' @ c"

definition memGetContent :: "store \<Rightarrow> string \<Rightarrow> string \<Rightarrow> string \<Rightarrow> string \<Rightarrow> error + contentData" where
  "memGetContent w ow rp p branch =
     (case w p of None \<Rightarrow> Inl (Error ''Not Found'') | Some (c, s) \<Rightarrow> Inr (Item ''file'' c s))"

definition memWrite ::
  "store \<Rightarrow> string \<Rightarrow> string \<Rightarrow> string \<Rightarrow> string \<Rightarrow> string \<Rightarrow> string \<Rightarrow> string option \<Rightarrow> error option \<times> store" where
  "memWrite w ow rp p msg c branch s =
     (if map_option snd (w p) = s then (None, w(p \<mapsto> (c, hashOf c)))
      else (Some (Error ''sha does not match''), w))"

definition memSearch :: "store \<Rightarrow> string \<Rightarrow> error + string list" where
  "memSearch w q = Inr []"

definition memClient :: "store GitHubClient" where
  "memClient = \<lparr>owner = ''o'', repo = ''r'', getContent = memGetContent,
     createOrUpdateFileContents = memWrite, searchCode = memSearch\<rparr>"

definition fileOf :: "string \<Rightarrow> string \<times> string" where
  "fileOf c = (c, hashOf c)"


section \<open>The context loader \<^verbatim>\<open>getFilesWithImports\<close>\<close>

definition possiblePaths :: "string \<Rightarrow> string list" where
  "possiblePaths p =
     [p, p @ ''.ts'', p @ ''.tsx'', p @ ''.js'', p @ ''.jsx'',
      p @ ''/index.ts'', p @ ''/index.tsx'', p @ ''/index.js'']"

text \<open>
  \<^verbatim>\<open>loadFile\<close> is an \<^verbatim>\<open>async\<close> function and all its calls are started through
  \<^verbatim>\<open>Promise.all\<close>, so several calls are in progress at once. JavaScript runs one of them
  at a time and switches only at an \<^verbatim>\<open>await\<close>. The only \<^verbatim>\<open>await\<close> with an effect
  is the one on \<^verbatim>\<open>getFileContent\<close> (awaiting the children with \<^verbatim>\<open>Promise.all\<close> is
  followed by \<^verbatim>\<open>return\<close>). A call that waits there is a \<open>task\<close>: the candidate path
  \<open>cur\<close> whose content was requested, the candidates \<open>rest\<close> that \<^verbatim>\<open>possiblePaths\<close> has
  after it, and the \<open>depth\<close> of the call.
\<close>

record task =
  cur :: string
  rest :: "string list"
  depth :: int

text \<open>
  The state of one call of \<^verbatim>\<open>getFilesWithImports\<close>: its two variables \<^verbatim>\<open>loaded\<close> and
  \<^verbatim>\<open>files\<close>, and the waiting calls of \<^verbatim>\<open>loadFile\<close> in the order in which they sent
  their requests. Two more fields are not variables of the source, they only keep a record
  of what happened: \<open>fetched\<close> lists the path of every request sent through
  \<^verbatim>\<open>getFileContent\<close>, and \<open>loads\<close> lists every file appended to \<^verbatim>\<open>files\<close> with the
  depth of the call of \<^verbatim>\<open>loadFile\<close> that appended it.
\<close>

record loader =
  loaded :: "string set"
  files :: "RepoFile list"
  pending :: "task list"
  fetched :: "string list"
  loads :: "(string \<times> int) list"

definition emptyLoader :: loader where
  "emptyLoader = \<lparr>loaded = {}, files = [], pending = [], fetched = [], loads = []\<rparr>"

text \<open>
  The \<^verbatim>\<open>for\<close> loop of \<^verbatim>\<open>loadFile\<close> from its head, with the candidates still to try,
  up to the next \<^verbatim>\<open>await\<close>: the call returns when there is no candidate left or when the
  next candidate is in \<^verbatim>\<open>loaded\<close>; otherwise it requests the candidate and waits.
\<close>

fun tryPaths :: "string list \<Rightarrow> int \<Rightarrow> loader \<Rightarrow> loader" where
  "tryPaths [] d st = st"
| "tryPaths (p # ps) d st =
     (if p \<in> loaded st then st
      else st\<lparr>pending := pending st @ [\<lparr>cur = p, rest = ps, depth = d\<rparr>],
              fetched := fetched st @ [p]\<rparr>)"

definition loadFile :: "string \<Rightarrow> int \<Rightarrow> loader \<Rightarrow> loader" where
  "loadFile p d st = tryPaths (possiblePaths p) d st"

text \<open>
  A waiting call goes on when its request is answered. A rejected request is caught and the
  loop goes to the next candidate. Otherwise the path is added to \<^verbatim>\<open>loaded\<close>, the file is
  appended to \<^verbatim>\<open>files\<close> and, below \<^verbatim>\<open>maxDepth\<close>, \<^verbatim>\<open>loadFile\<close> is called for every
  import in turn; each of these calls runs up to its own first \<^verbatim>\<open>await\<close>.
\<close>

definition resume ::
  "'w GitHubClient \<Rightarrow> 'w \<Rightarrow> string \<Rightarrow> int \<Rightarrow> task \<Rightarrow> loader \<Rightarrow> loader" where
  "resume gh w branch maxDepth t st =
     (case getFileContent gh w (cur t) branch of
        Inl e \<Rightarrow> tryPaths (rest t) (depth t) st
      | Inr file \<Rightarrow>
          let st' = st\<lparr>loaded := insert (cur t) (loaded st), files := files st @ [file],
                       loads := loads st @ [(cur t, depth t)]\<rparr>
          in if depth t < maxDepth
             then fold (\<lambda>imp. loadFile imp (depth t + 1)) (parseImports (content file) (cur t)) st'
             else st')"

text \<open>One turn of the event loop: the request of the waiting call number \<open>i\<close> is answered.\<close>

definition settle ::
  "'w GitHubClient \<Rightarrow> 'w \<Rightarrow> string \<Rightarrow> int \<Rightarrow> nat \<Rightarrow> loader \<Rightarrow> loader" where
  "settle gh w branch maxDepth i st =
     resume gh w branch maxDepth (pending st ! i)
       (st\<lparr>pending := take i (pending st) @ drop (Suc i) (pending st)\<rparr>)"

text \<open>
  The order in which the requests are answered is not fixed by the program. A schedule names,
  turn by turn, the waiting call that is answered next; a schedule that names a call that does
  not exist is no run of the program.
\<close>

fun run ::
  "'w GitHubClient \<Rightarrow> 'w \<Rightarrow> string \<Rightarrow> int \<Rightarrow> nat list \<Rightarrow> loader \<Rightarrow> loader option" where
  "run gh w branch maxDepth [] st = Some st"
| "run gh w branch maxDepth (i # sched) st =
     (if i < length (pending st) then run gh w branch maxDepth sched (settle gh w branch maxDepth i st)
      else None)"

text \<open>The state after \<^verbatim>\<open>entryPaths.map(p => loadFile(p, 0))\<close>.\<close>

definition start :: "string list \<Rightarrow> loader" where
  "start entryPaths = fold (\<lambda>p. loadFile p 0) entryPaths emptyLoader"

text \<open>
  \<^verbatim>\<open>getFilesWithImports\<close> returns \<^verbatim>\<open>files\<close> once no call of \<^verbatim>\<open>loadFile\<close> is waiting
  any more. The result is \<open>None\<close> when the schedule is no run or stops before that.
\<close>

definition getFilesWithImports ::
  "'w GitHubClient \<Rightarrow> 'w \<Rightarrow> string list \<Rightarrow> string \<Rightarrow> int \<Rightarrow> nat list \<Rightarrow> RepoFile list option" where
  "getFilesWithImports gh w entryPaths branch maxDepth sched =
     (case run gh w branch maxDepth sched (start entryPaths) of
        None \<Rightarrow> None
      | Some st \<Rightarrow> if pending st = [] then Some (files st) else None)"

text \<open>The schedule that answers the requests in the order in which they were sent.\<close>

definition inOrder :: "nat \<Rightarrow> nat list" where
  "inOrder n = replicate n 0"


section \<open>JavaScript numbers\<close>

text \<open>
  A JavaScript number is an IEEE 754 double. A finite double is modelled by the real number
  it denotes, and every arithmetic operation computes the exact result and rounds it to the
  nearest double, to the one with the even significand when two are equally near. A double
  is \<open>m * 2 ^ e\<close> with an integer \<open>m\<close> below \<open>2 ^ 53\<close> and \<open>e\<close> not less than
  \<open>-1074\<close>. \<open>normalise\<close> looks for the exponent that brings the significand of a
  positive value into the range from \<open>2 ^ 52\<close> to \<open>2 ^ 53\<close>, by halving or doubling; its
  first argument bounds the number of steps and is larger than any finite double needs.
  Infinities and NaN are not modelled.
\<close>

fun normalise :: "nat \<Rightarrow> real \<Rightarrow> int \<Rightarrow> real \<times> int" where
  "normalise n q e =
     (if n = 0 then (q, e)
      else if 2 ^ 53 \<le> q then normalise (n - 1) (q / 2) (e + 1)
      else if q < 2 ^ 52 \<and> - 1074 < e then normalise (n - 1) (q * 2) (e - 1)
      else (q, e))"

declare normalise.simps [simp del]

definition roundEven :: "real \<Rightarrow> int" where
  "roundEven q =
     (let f = \<lfloor>q\<rfloor>; r = q - of_int f
      in if r < 1 / 2 then f else if 1 / 2 < r then f + 1 else if even f then f else f + 1)"

definition rnd64 :: "real \<Rightarrow> real" where
  "rnd64 x =
     (if x = 0 then 0
      else case normalise 2200 \<bar>x\<bar> 0 of (q, e) \<Rightarrow> sgn x * of_int (roundEven q) * 2 powi e)"

definition fadd :: "real \<Rightarrow> real \<Rightarrow> real" where
  "fadd x y = rnd64 (x + y)"

definition fmul :: "real \<Rightarrow> real \<Rightarrow> real" where
  "fmul x y = rnd64 (x * y)"

definition fdiv :: "real \<Rightarrow> real \<Rightarrow> real" where
  "fdiv x y = rnd64 (x / y)"


section \<open>Usage accounting (\<^verbatim>\<open>ClaudeClient\<close>)\<close>

text \<open>
  The keys of \<^verbatim>\<open>PRICING\<close>: \<open>Sonnet\<close> is \<^verbatim>\<open>claude-sonnet-4-5-20250929\<close>, the
  model of a client made without a model, and \<open>Opus\<close> is \<^verbatim>\<open>claude-opus-4-5-20251101\<close>.
\<close>

datatype ModelKey = Sonnet | Opus

record rates =
  inputRate :: real
  outputRate :: real
  cacheWriteRate :: real
  cacheReadRate :: real

text \<open>The table \<^verbatim>\<open>PRICING\<close>; a decimal literal denotes the double nearest to it.\<close>

fun PRICING :: "ModelKey \<Rightarrow> rates" where
  "PRICING Sonnet = \<lparr>inputRate = rnd64 3, outputRate = rnd64 15,
     cacheWriteRate = rnd64 (375 / 100), cacheReadRate = rnd64 (30 / 100)\<rparr>"
| "PRICING Opus = \<lparr>inputRate = rnd64 15, outputRate = rnd64 75,
     cacheWriteRate = rnd64 (1875 / 100), cacheReadRate = rnd64 (150 / 100)\<rparr>"

text \<open>
  The \<^verbatim>\<open>usage\<close> object of a response of the model service. A counter is a
  JavaScript number, or it is missing or \<^verbatim>\<open>null\<close>, which is \<open>None\<close>.
\<close>

record Usage =
  input_tokens :: "real option"
  output_tokens :: "real option"
  cache_creation_input_tokens :: "real option"
  cache_read_input_tokens :: "real option"

text \<open>\<^verbatim>\<open>x || 0\<close> for a counter \<open>x\<close>.\<close>

fun orZero :: "real option \<Rightarrow> real" where
  "orZero None = 0"
| "orZero (Some n) = n"

text \<open>
  The counters \<^verbatim>\<open>tokensUsed\<close> of the ledger are JavaScript numbers as well, and
  \<^verbatim>\<open>+=\<close> on them is the addition of doubles.
\<close>

record TokenCounts =
  tok_input :: real
  tok_output :: real
  tok_cacheRead :: real
  tok_cacheWrite :: real

record CostTracker =
  sessionCost :: real
  dailyCost :: real
  monthlyCost :: real
  tokensUsed :: TokenCounts

record ClaudeClient =
  model :: ModelKey
  costTracker :: CostTracker

definition newClaudeClient :: "ModelKey \<Rightarrow> ClaudeClient" where
  "newClaudeClient m =
     \<lparr>model = m,
      costTracker = \<lparr>sessionCost = 0, dailyCost = 0, monthlyCost = 0,
        tokensUsed = \<lparr>tok_input = 0, tok_output = 0, tok_cacheRead = 0, tok_cacheWrite = 0\<rparr>\<rparr>\<rparr>"

definition calculateCost :: "ModelKey \<Rightarrow> Usage \<Rightarrow> real" where
  "calculateCost m u =
     (let pricing = PRICING m;
          inputCost = fdiv (fmul (orZero (input_tokens u)) (inputRate pricing)) (rnd64 1000000);
          outputCost = fdiv (fmul (orZero (output_tokens u)) (outputRate pricing)) (rnd64 1000000);
          cacheWriteCost =
            fdiv (fmul (orZero (cache_creation_input_tokens u)) (cacheWriteRate pricing))
              (rnd64 1000000);
          cacheReadCost =
            fdiv (fmul (orZero (cache_read_input_tokens u)) (cacheReadRate pricing))
              (rnd64 1000000)
      in fadd (fadd (fadd inputCost outputCost) cacheWriteCost) cacheReadCost)"

definition updateCostTracker :: "ClaudeClient \<Rightarrow> Usage \<Rightarrow> ClaudeClient" where
  "updateCostTracker cl u =
     (let cost = calculateCost (model cl) u; t = costTracker cl; k = tokensUsed t
      in cl\<lparr>costTracker :=
           \<lparr>sessionCost = fadd (sessionCost t) cost,
            dailyCost = fadd (dailyCost t) cost,
            monthlyCost = fadd (monthlyCost t) cost,
            tokensUsed =
              \<lparr>tok_input = fadd (tok_input k) (orZero (input_tokens u)),
               tok_output = fadd (tok_output k) (orZero (output_tokens u)),
               tok_cacheRead = fadd (tok_cacheRead k) (orZero (cache_read_input_tokens u)),
               tok_cacheWrite = fadd (tok_cacheWrite k) (orZero (cache_creation_input_tokens u))\<rparr>\<rparr>\<rparr>)"

text \<open>
  \<^verbatim>\<open>getCostTracker\<close> returns \<^verbatim>\<open>{ ...this.costTracker }\<close>, a copy of the three cost
  fields whose \<^verbatim>\<open>tokensUsed\<close> is the object of the ledger itself, so that a later
  \<^verbatim>\<open>updateCostTracker\<close> would show in the counters of a copy that is kept. The only
  caller is \<^verbatim>\<open>POST\<close>, which serialises the copy into its response at once, before
  any further update: there the copy is the value of the ledger at the call, which is what
  the model returns. A copy that outlives an update is not modelled.
\<close>

definition getCostTracker :: "ClaudeClient \<Rightarrow> CostTracker" where
  "getCostTracker cl = costTracker cl"

definition resetSessionCost :: "ClaudeClient \<Rightarrow> ClaudeClient" where
  "resetSessionCost cl =
     cl\<lparr>costTracker := (costTracker cl)
          \<lparr>sessionCost := 0,
           tokensUsed := \<lparr>tok_input = 0, tok_output = 0, tok_cacheRead = 0, tok_cacheWrite = 0\<rparr>\<rparr>\<rparr>"

text \<open>The usage objects \<^verbatim>\<open>{input, output, cacheWrite, cacheRead}\<close> of the specification.\<close>

definition usageOf :: "real \<Rightarrow> real \<Rightarrow> real \<Rightarrow> real \<Rightarrow> Usage" where
  "usageOf i out cw cr =
     \<lparr>input_tokens = Some i, output_tokens = Some out,
      cache_creation_input_tokens = Some cw, cache_read_input_tokens = Some cr\<rparr>"


section \<open>One round with the model (\<^verbatim>\<open>ClaudeClient.chat\<close>)\<close>

datatype Role = User | Assistant

datatype Message = Message Role string

text \<open>
  The input of a tool call. The tools are declared to the model with the schemas of
  \<^verbatim>\<open>getDefaultTools\<close>, whose properties are all strings; a call carries the properties
  of its tool, and the code reads from a call only the properties of the tool it names.
\<close>

record ToolInput =
  in_path :: string
  old_str :: string
  new_str :: string
  in_content :: string
  query :: string

record ToolCall =
  call_id :: string
  name :: string
  call_input :: ToolInput

datatype Block = TextBlock string | ToolUseBlock string string ToolInput | OtherBlock

record ApiResponse =
  resp_content :: "Block list"
  resp_usage :: Usage

text \<open>
  The request of \<^verbatim>\<open>client.messages.create\<close>: the model, \<^verbatim>\<open>max_tokens\<close>, the two
  parts of \<^verbatim>\<open>system\<close> and the messages. The tool schemas are the same in every request
  and are left out.
\<close>

record Request =
  req_model :: ModelKey
  max_tokens :: nat
  systemPrompt :: string
  cachedContext :: string
  messages :: "Message list"

text \<open>
  The model service is outside the repository, like the remote repository: its state has an
  arbitrary type \<open>'m\<close>, and a request yields a response or an error and the next state.
\<close>

type_synonym 'm messagesApi = "'m \<Rightarrow> Request \<Rightarrow> (error + ApiResponse) \<times> 'm"

record ChatResult =
  chat_content :: string
  toolCalls :: "ToolCall list option"
  usage :: Usage
  cost :: real

fun textOf :: "Block list \<Rightarrow> string" where
  "textOf [] = []"
| "textOf (TextBlock t # bs) = t @ textOf bs"
| "textOf (b # bs) = textOf bs"

fun toolCallsOf :: "Block list \<Rightarrow> ToolCall list" where
  "toolCallsOf [] = []"
| "toolCallsOf (ToolUseBlock i n inp # bs) =
     \<lparr>call_id = i, name = n, call_input = inp\<rparr> # toolCallsOf bs"
| "toolCallsOf (b # bs) = toolCallsOf bs"

definition chat ::
  "'m messagesApi \<Rightarrow> ClaudeClient \<Rightarrow> 'm \<Rightarrow> Message list \<Rightarrow> string \<Rightarrow> string
     \<Rightarrow> (error + ChatResult) \<times> ClaudeClient \<times> 'm" where
  "chat api cl m msgs sysPrompt codeContext =
     (case api m \<lparr>req_model = model cl, max_tokens = 8192, systemPrompt = sysPrompt,
                   cachedContext = codeContext, messages = msgs\<rparr> of
        (Inl e, m') \<Rightarrow> (Inl e, cl, m')
      | (Inr response, m') \<Rightarrow>
          let cl' = updateCostTracker cl (resp_usage response);
              calls = toolCallsOf (resp_content response)
          in (Inr \<lparr>chat_content = textOf (resp_content response),
                   toolCalls = (if length calls > 0 then Some calls else None),
                   usage = resp_usage response,
                   cost = calculateCost (model cl) (resp_usage response)\<rparr>, cl', m'))"

definition CODING_SYSTEM_PROMPT :: string where
  "CODING_SYSTEM_PROMPT = joinStr
    [''You are an expert software engineer helping with a codebase. You have access to tools to read and edit files.'',
     [],
     ''IMPORTANT RULES:'',
     ''1. Use str_replace for edits - never rewrite entire files'',
     ''2. The old_str must be UNIQUE and EXACT (including whitespace)'',
     ''3. If you need to see more files, use read_file'',
     ''4. Always explain what you're doing before making changes'',
     ''5. Make minimal, focused changes'',
     [],
     ''WORKFLOW:'',
     ''1. Analyze the request'',
     ''2. Identify which files need to change'',
     ''3. Request additional files if needed'',
     ''4. Make changes using str_replace or create_file'',
     ''5. Explain what was changed and why'',
     [],
     ''If a str_replace fails because the string wasn't unique, try using a larger context string that includes more surrounding code.'']
    [CHR 0x0A]"


section \<open>Tool execution and the turn (\<^verbatim>\<open>src/app/api/chat/route.ts\<close>)\<close>

text \<open>
  The \<^verbatim>\<open>switch\<close> inside the \<^verbatim>\<open>try\<close> of \<^verbatim>\<open>executeToolCall\<close>. The result is
  \<open>Inl e\<close> when the exception \<open>e\<close> leaves the \<^verbatim>\<open>switch\<close>; \<^verbatim>\<open>applyStrReplace\<close> catches
  its own exceptions.
\<close>

definition toolSwitch ::
  "'w GitHubClient \<Rightarrow> 'w \<Rightarrow> ToolCall \<Rightarrow> string \<Rightarrow> (error + ToolResult) \<times> 'w" where
  "toolSwitch gh w call branch =
     (if name call = ''read_file'' then
        (case getFileContent gh w (in_path (call_input call)) branch of
           Inl e \<Rightarrow> (Inl e, w)
         | Inr file \<Rightarrow> (Inr \<lparr>success = True, result = Some (Text (content file)), error = None\<rparr>, w))
      else if name call = ''str_replace'' then
        (case applyStrReplace gh w (in_path (call_input call)) (old_str (call_input call))
                (new_str (call_input call)) branch of
           (r, w') \<Rightarrow> (Inr r, w'))
      else if name call = ''create_file'' then
        (case updateFile gh w (in_path (call_input call)) (in_content (call_input call))
                (''Create '' @ in_path (call_input call)) branch None of
           (Some e, w') \<Rightarrow> (Inl e, w')
         | (None, w') \<Rightarrow> (Inr succeeded, w'))
      else if name call = ''search_files'' then
        (case searchFiles gh w (query (call_input call)) of
           Inl e \<Rightarrow> (Inl e, w)
         | Inr paths \<Rightarrow> (Inr \<lparr>success = True, result = Some (Paths paths), error = None\<rparr>, w))
      else (Inr (failed (''Unknown tool: '' @ name call)), w))"

definition executeToolCall ::
  "'w GitHubClient \<Rightarrow> 'w \<Rightarrow> ToolCall \<Rightarrow> string \<Rightarrow> ToolResult \<times> 'w" where
  "executeToolCall gh w call branch =
     (case toolSwitch gh w call branch of
        (Inl e, w') \<Rightarrow> (failed (message e), w')
      | (Inr r, w') \<Rightarrow> (r, w'))"

datatype Action = Create | Edit | Delete

record FileChange =
  fc_path :: string
  action :: Action
  diff :: "string option"

text \<open>
  The \<^verbatim>\<open>for\<close> loop over \<^verbatim>\<open>response.toolCalls\<close>, with the variables
  \<^verbatim>\<open>toolResults\<close> and \<^verbatim>\<open>filesChanged\<close> and the state of the remote repository.
\<close>

fun toolLoop ::
  "'w GitHubClient \<Rightarrow> string \<Rightarrow> ToolCall list \<Rightarrow> ToolResult list \<times> FileChange list \<times> 'w
     \<Rightarrow> ToolResult list \<times> FileChange list \<times> 'w" where
  "toolLoop gh branch [] acc = acc"
| "toolLoop gh branch (call # calls) (toolResults, filesChanged, w) =
     (case executeToolCall gh w call branch of
        (r, w') \<Rightarrow>
          toolLoop gh branch calls
            (toolResults @ [r],
             (if name call = ''str_replace'' \<or> name call = ''create_file''
              then filesChanged @
                [\<lparr>fc_path = in_path (call_input call),
                  action = (if name call = ''create_file'' then Create else Edit),
                  diff = None\<rparr>]
              else filesChanged),
             w'))"

text \<open>The line of the summary of tool results for one call and its result.\<close>

definition resultLine :: "ToolCall \<Rightarrow> ToolResult \<Rightarrow> string" where
  "resultLine call r =
     ''Tool '' @ name call @ '': '' @
       (if success r then ''Success''
        else ''Failed - '' @ (case error r of Some e \<Rightarrow> e | None \<Rightarrow> ''undefined''))"

record Body =
  body_content :: string
  body_filesChanged :: "FileChange list"
  body_cost :: real
  body_tokensUsed :: TokenCounts
  body_costTracker :: CostTracker

datatype Response = Json Body | Failure string nat

definition errorResponse :: "error \<Rightarrow> Response" where
  "errorResponse e = Failure (if message e = [] then ''An error occurred'' else message e) 500"

text \<open>
  The handler \<^verbatim>\<open>POST\<close> from its first call of the model on. What the handler does before
  (checking the session, loading the tree and the context) yields the message list
  \<open>msgs\<close>, the context \<open>codeContext\<close> and the branch, which are arguments here. The handler
  works on the client \<open>cl\<close>, the state \<open>m\<close> of the model service and the state \<open>w\<close> of the
  remote repository, and the model returns them with the response.
\<close>

definition POST ::
  "'m messagesApi \<Rightarrow> 'w GitHubClient \<Rightarrow> string \<Rightarrow> Message list \<Rightarrow> string
     \<Rightarrow> ClaudeClient \<times> 'm \<times> 'w \<Rightarrow> Response \<times> ClaudeClient \<times> 'm \<times> 'w" where
  "POST api gh branch msgs codeContext s =
     (case s of (cl, m, w) \<Rightarrow>
      (case chat api cl m msgs CODING_SYSTEM_PROMPT codeContext of
         (Inl e, cl1, m1) \<Rightarrow> (errorResponse e, cl1, m1, w)
       | (Inr response, cl1, m1) \<Rightarrow>
           (case (case toolCalls response of
                    None \<Rightarrow> ([], [], w)
                  | Some calls \<Rightarrow> toolLoop gh branch calls ([], [], w)) of
              (toolResults, filesChanged, w1) \<Rightarrow>
                if toolCalls response \<noteq> None \<and> length toolResults > 0 then
                  let toolResultsMessage =
                        joinStr (map (\<lambda>(call, r). resultLine call r)
                                   (zip (the (toolCalls response)) toolResults)) [CHR 0x0A]
                  in (case chat api cl1 m1
                            (msgs @ [Message Assistant (chat_content response),
                                     Message User (''Tool results:'' @ [CHR 0x0A] @ toolResultsMessage
                                       @ [CHR 0x0A, CHR 0x0A] @ ''Please summarize what was done.'')])
                            CODING_SYSTEM_PROMPT codeContext of
                        (Inl e, cl2, m2) \<Rightarrow> (errorResponse e, cl2, m2, w1)
                      | (Inr followUp, cl2, m2) \<Rightarrow>
                          (Json \<lparr>body_content = chat_content followUp,
                                 body_filesChanged = filesChanged,
                                 body_cost = fadd (cost response) (cost followUp),
                                 body_tokensUsed =
                                   \<lparr>tok_input = fadd (orZero (input_tokens (usage response)))
                                      (orZero (input_tokens (usage followUp))),
                                    tok_output = fadd (orZero (output_tokens (usage response)))
                                      (orZero (output_tokens (usage followUp))),
                                    tok_cacheRead = fadd (orZero (cache_read_input_tokens (usage response)))
                                      (orZero (cache_read_input_tokens (usage followUp))),
                                    tok_cacheWrite =
                                      fadd (orZero (cache_creation_input_tokens (usage response)))
                                        (orZero (cache_creation_input_tokens (usage followUp)))\<rparr>,
                                 body_costTracker = getCostTracker cl2\<rparr>, cl2, m2, w1))
                else
                  (Json \<lparr>body_content = chat_content response,
                         body_filesChanged = filesChanged,
                         body_cost = cost response,
                         body_tokensUsed =
                           \<lparr>tok_input = orZero (input_tokens (usage response)),
                            tok_output = orZero (output_tokens (usage response)),
                            tok_cacheRead = orZero (cache_read_input_tokens (usage response)),
                            tok_cacheWrite = orZero (cache_creation_input_tokens (usage response))\<rparr>,
                         body_costTracker = getCostTracker cl1\<rparr>, cl1, m1, w1))))"

text \<open>
  A model service for the worked examples: it answers the requests with the responses of a
  prepared list, one after the other, and rejects a request when the list is used up.
\<close>

definition scripted :: "ApiResponse list messagesApi" where
  "scripted rs req = (case rs of [] \<Rightarrow> (Inl (Error ''no response''), []) | r # rs' \<Rightarrow> (Inr r, rs'))"


section \<open>Notions used in the proofs\<close>

text \<open>A path segment that \<^verbatim>\<open>resolveImportPath\<close> keeps.\<close>

definition segment :: "string \<Rightarrow> bool" where
  "segment x = (x \<noteq> [] \<and> x \<noteq> ''.'' \<and> x \<noteq> ''..'' \<and> CHR ''/'' \<notin> set x)"

text \<open>
  What the loop over the tool calls yields, call by call: the results, the recorded file
  changes and the state of the remote repository after the calls.
\<close>

fun toolResultsOf :: "'w GitHubClient \<Rightarrow> string \<Rightarrow> ToolCall list \<Rightarrow> 'w \<Rightarrow> ToolResult list" where
  "toolResultsOf gh branch [] w = []"
| "toolResultsOf gh branch (call # calls) w =
     fst (executeToolCall gh w call branch)
       # toolResultsOf gh branch calls (snd (executeToolCall gh w call branch))"

fun worldAfter :: "'w GitHubClient \<Rightarrow> string \<Rightarrow> ToolCall list \<Rightarrow> 'w \<Rightarrow> 'w" where
  "worldAfter gh branch [] w = w"
| "worldAfter gh branch (call # calls) w =
     worldAfter gh branch calls (snd (executeToolCall gh w call branch))"

definition editing :: "ToolCall \<Rightarrow> bool" where
  "editing call = (name call = ''str_replace'' \<or> name call = ''create_file'')"

definition changeOf :: "ToolCall \<Rightarrow> FileChange" where
  "changeOf call =
     \<lparr>fc_path = in_path (call_input call),
      action = (if name call = ''create_file'' then Create else Edit), diff = None\<rparr>"

definition changesOf :: "ToolCall list \<Rightarrow> FileChange list" where
  "changesOf calls = map changeOf (filter editing calls)"

text \<open>The file changes of a response; an error response has none.\<close>

fun filesChangedOf :: "Response \<Rightarrow> FileChange list" where
  "filesChangedOf (Json b) = body_filesChanged b"
| "filesChangedOf (Failure msg status) = []"

text \<open>The request that \<^verbatim>\<open>chat\<close> sends for a list of messages and a context.\<close>

definition requestOf :: "ClaudeClient \<Rightarrow> Message list \<Rightarrow> string \<Rightarrow> Request" where
  "requestOf cl msgs codeContext =
     \<lparr>req_model = model cl, max_tokens = 8192, systemPrompt = CODING_SYSTEM_PROMPT,
      cachedContext = codeContext, messages = msgs\<rparr>"

text \<open>The inputs of the worked examples of the turn.\<close>

definition noInput :: ToolInput where
  "noInput = \<lparr>in_path = [], old_str = [], new_str = [], in_content = [], query = []\<rparr>"

definition createCall :: ToolCall where
  "createCall = \<lparr>call_id = ''t1'', name = ''create_file'',
     call_input = noInput\<lparr>in_path := ''new.txt'', in_content := ''x''\<rparr>\<rparr>"

definition replaceCall :: ToolCall where
  "replaceCall = \<lparr>call_id = ''t2'', name = ''str_replace'',
     call_input = noInput\<lparr>in_path := ''f.txt'', old_str := ''a'', new_str := ''b''\<rparr>\<rparr>"

definition unknownCall :: ToolCall where
  "unknownCall = \<lparr>call_id = ''t3'', name = ''frob'', call_input = noInput\<rparr>"

definition readCall :: ToolCall where
  "readCall = \<lparr>call_id = ''t4'', name = ''read_file'',
     call_input = noInput\<lparr>in_path := ''gone.txt''\<rparr>\<rparr>"

text \<open>
  An edit of the one occurrence of \<^verbatim>\<open>aa\<close> in \<^verbatim>\<open>f.txt\<close>, and a repository that can
  be read like the in-memory one and rejects every write.
\<close>

definition uniqueCall :: ToolCall where
  "uniqueCall = \<lparr>call_id = ''t5'', name = ''str_replace'',
     call_input = noInput\<lparr>in_path := ''f.txt'', old_str := ''aa'', new_str := ''b''\<rparr>\<rparr>"

definition lockedClient :: "store GitHubClient" where
  "lockedClient = \<lparr>owner = ''o'', repo = ''r'', getContent = memGetContent,
     createOrUpdateFileContents =
       (\<lambda>w ow rp p msg c branch s. (Some (Error ''Resource not accessible by integration''), w)),
     searchCode = memSearch\<rparr>"

definition someUsage :: Usage where
  "someUsage = \<lparr>input_tokens = Some 5, output_tokens = Some 2,
     cache_creation_input_tokens = None, cache_read_input_tokens = None\<rparr>"

definition toolRound :: ApiResponse where
  "toolRound = \<lparr>resp_content =
       [TextBlock ''I will edit.'',
        ToolUseBlock ''t1'' ''create_file'' (call_input createCall),
        ToolUseBlock ''t2'' ''str_replace'' (call_input replaceCall)],
     resp_usage = someUsage\<rparr>"

definition textRound :: ApiResponse where
  "textRound = \<lparr>resp_content = [TextBlock ''Nothing '', TextBlock ''to do.''],
     resp_usage = someUsage\<rparr>"

definition store0 :: store where
  "store0 = [''f.txt'' \<mapsto> fileOf ''aa'']"

text \<open>A model service that answers every request with the same response.\<close>

definition steady :: "ApiResponse \<Rightarrow> unit messagesApi" where
  "steady r m req = (Inr r, m)"

text \<open>The messages of the second round, for the response \<open>r\<close> of the first.\<close>

definition followUpMessages ::
  "'w GitHubClient \<Rightarrow> string \<Rightarrow> Message list \<Rightarrow> ApiResponse \<Rightarrow> 'w \<Rightarrow> Message list" where
  "followUpMessages gh branch msgs r w =
     msgs @ [Message Assistant (textOf (resp_content r)),
             Message User (''Tool results:'' @ [CHR 0x0A]
               @ joinStr (map (\<lambda>(call, res). resultLine call res)
                    (zip (toolCallsOf (resp_content r))
                       (toolResultsOf gh branch (toolCallsOf (resp_content r)) w))) [CHR 0x0A]
               @ [CHR 0x0A, CHR 0x0A] @ ''Please summarize what was done.'')]"

text \<open>A client that has recorded one response of one output token.\<close>

definition afterOne :: ClaudeClient where
  "afterOne = updateCostTracker (newClaudeClient Sonnet) (usageOf 0 1 0 0)"

text \<open>
  A new client whose counter of input tokens has been set to \<open>2 ^ 53 + 2\<close>, a double
  beyond the range in which every whole number is a double.
\<close>

definition bigLedger :: ClaudeClient where
  "bigLedger =
     \<lparr>model = Sonnet,
      costTracker = \<lparr>sessionCost = 0, dailyCost = 0, monthlyCost = 0,
        tokensUsed = \<lparr>tok_input = 2 ^ 53 + 2, tok_output = 0, tok_cacheRead = 0,
          tok_cacheWrite = 0\<rparr>\<rparr>\<rparr>"

text \<open>
  The four counters are whole numbers below \<open>2 ^ 53 - 8\<close>, so that adding up to eight
  tokens to any of them stays in the range in which the doubles are the whole numbers.
\<close>

definition exactCounts :: "TokenCounts \<Rightarrow> bool" where
  "exactCounts k =
     (tok_input k \<in> \<nat> \<and> tok_input k + 8 < 2 ^ 53
      \<and> tok_output k \<in> \<nat> \<and> tok_output k + 8 < 2 ^ 53
      \<and> tok_cacheRead k \<in> \<nat> \<and> tok_cacheRead k + 8 < 2 ^ 53
      \<and> tok_cacheWrite k \<in> \<nat> \<and> tok_cacheWrite k + 8 < 2 ^ 53)"


text \<open>
  Notions for the context loader. A path is \<open>present\<close> when \<^verbatim>\<open>getFileContent\<close> answers
  with a file; \<open>importsAt\<close> are the references that \<^verbatim>\<open>parseImports\<close> extracts from the
  file at a path. A reference \<open>x\<close> is \<open>wanted\<close> at depth \<open>d\<close> when \<^verbatim>\<open>loadFile(x, d)\<close>
  has been called: \<open>x\<close> is an entry path and \<open>d\<close> is \<open>0\<close>, or \<open>x\<close> is a reference of a
  file that was loaded at depth \<open>d - 1\<close>, below \<^verbatim>\<open>maxDepth\<close>. A wanted reference is
  \<open>served\<close> when the first of its candidate paths that is present, if there is one, is in
  \<^verbatim>\<open>loaded\<close>. A waiting call \<open>tracks\<close> a reference when it is about to go through the
  candidates of the reference from \<open>cur\<close> on and the candidates before \<open>cur\<close> are not
  present.
\<close>

definition present :: "'w GitHubClient \<Rightarrow> 'w \<Rightarrow> string \<Rightarrow> string \<Rightarrow> bool" where
  "present gh w branch p = (case getFileContent gh w p branch of Inl e \<Rightarrow> False | Inr f \<Rightarrow> True)"










text \<open>The remote repositories of the worked examples of the loader.\<close>

definition sharedRepo :: store where
  \<open>sharedRepo = [''a.ts'' \<mapsto> fileOf ''import c from "/c.ts"'',
                 ''b.ts'' \<mapsto> fileOf ''import c from "/c.ts"'',
                 ''/c.ts'' \<mapsto> fileOf ''export {}'']\<close>

definition cycleRepo :: store where
  \<open>cycleRepo = [''/a.ts'' \<mapsto> fileOf ''import b from "/b.ts"'',
                ''/b.ts'' \<mapsto> fileOf ''import a from "/a.ts"'']\<close>



section \<open>Import resolution\<close>

lemma splitAux_no_sep:
  "c \<notin> set acc \<Longrightarrow> \<forall>x \<in> set (splitAux [c] acc s). c \<notin> set x"
proof (induction s arbitrary: acc)
  case Nil
  then show ?case by simp
next
  case (Cons a s)
  show ?case
  proof (cases "a = c")
    case True
    then show ?thesis using Cons.IH [of "[]"] Cons.prems by simp
  next
    case False
    then show ?thesis using Cons.IH [of "acc @ [a]"] Cons.prems by simp
  qed
qed

lemma splitStr_no_sep: "x \<in> set (splitStr s [c]) \<Longrightarrow> c \<notin> set x"
  using splitAux_no_sep [of c "[]" s] by (simp add: splitStr_def)

lemma resolveParts_segments:
  "\<forall>x \<in> set resolved. segment x \<Longrightarrow> \<forall>x \<in> set parts. CHR ''/'' \<notin> set x
    \<Longrightarrow> \<forall>x \<in> set (resolveParts resolved parts). segment x"
proof (induction parts arbitrary: resolved)
  case Nil
  then show ?case by simp
next
  case (Cons part parts)
  have tl: "\<forall>x \<in> set parts. CHR ''/'' \<notin> set x" and hd: "CHR ''/'' \<notin> set part"
    using Cons.prems(2) by simp_all
  show ?case
  proof (cases "part = ''..''")
    case True
    have "\<forall>x \<in> set (butlast resolved). segment x"
      using Cons.prems(1) by (meson in_set_butlastD)
    then have "\<forall>x \<in> set (resolveParts (butlast resolved) parts). segment x"
      using tl by (rule Cons.IH)
    then show ?thesis using True by simp
  next
    case False
    show ?thesis
    proof (cases "part \<noteq> ''.'' \<and> part \<noteq> ''''")
      case True
      then have "segment part" using False hd unfolding segment_def by blast
      then have "\<forall>x \<in> set (resolved @ [part]). segment x"
        using Cons.prems(1) by simp
      then have "\<forall>x \<in> set (resolveParts (resolved @ [part]) parts). segment x"
        using tl by (rule Cons.IH)
      then show ?thesis using True False by simp
    next
      case no: False
      have "\<forall>x \<in> set (resolveParts resolved parts). segment x"
        using Cons.prems(1) tl by (rule Cons.IH)
      then show ?thesis using no False by auto
    qed
  qed
qed

lemma joinStr_head:
  "joinStr (x # xs) ''/'' = x @ (if xs = [] then [] else CHR ''/'' # joinStr xs ''/'')"
  by (cases xs) auto

lemma joined_segments_not_marked:
  assumes "\<forall>x \<in> set xs. segment x"
  shows "\<not> startsWith (joinStr xs ''/'') ''./'' \<and> \<not> startsWith (joinStr xs ''/'') ''../''
    \<and> \<not> startsWith (joinStr xs ''/'') ''/''"
proof (cases xs)
  case Nil
  then show ?thesis by (simp add: startsWith_def)
next
  case (Cons x ys)
  obtain t where j: "joinStr xs ''/'' = x @ t" and t: "t = [] \<or> hd t = CHR ''/'' \<and> t \<noteq> []"
    using Cons joinStr_head [of x ys] by (cases "ys = []") auto
  have seg: "segment x" using assms Cons by simp
  show ?thesis
  proof (cases x)
    case Nil
    then show ?thesis using seg by (simp add: segment_def)
  next
    case c1: (Cons a x')
    show ?thesis
    proof (cases x')
      case Nil
      then show ?thesis using seg c1 j t
        by (cases t) (auto simp: segment_def startsWith_def)
    next
      case c2: (Cons b x'')
      show ?thesis
      proof (cases x'')
        case Nil
        then show ?thesis using seg c1 c2 j t
          by (cases t) (auto simp: segment_def startsWith_def)
      next
        case (Cons c x''')
        then show ?thesis using seg c1 c2 j
          by (auto simp: segment_def startsWith_def)
      qed
    qed
  qed
qed

lemma resolveImportPath_relative:
  assumes "startsWith r ''./'' \<or> startsWith r ''../''"
  shows "\<not> startsWith (resolveImportPath r here) ''./''
    \<and> \<not> startsWith (resolveImportPath r here) ''../''
    \<and> \<not> startsWith (resolveImportPath r here) ''/''"
proof -
  let ?dir = "joinStr (butlast (splitStr here ''/'')) ''/''"
  have "\<forall>x \<in> set (splitStr ?dir ''/'' @ splitStr r ''/''). CHR ''/'' \<notin> set x"
    using splitStr_no_sep [of _ _ "CHR ''/''"] by auto
  then have "\<forall>x \<in> set (resolveParts [] (splitStr ?dir ''/'' @ splitStr r ''/'')). segment x"
    using resolveParts_segments [of "[]" "splitStr ?dir ''/'' @ splitStr r ''/''"] by simp
  then show ?thesis
    using assms joined_segments_not_marked by (simp add: resolveImportPath_def Let_def)
qed

lemma kept_import:
  "(\<lambda>i. startsWith i ''./'' \<or> startsWith i ''../'' \<or> startsWith i ''/'') (resolveImportPath r here)
    \<longleftrightarrow> startsWith r ''/''"
proof (cases "startsWith r ''./'' \<or> startsWith r ''../''")
  case True
  then have "\<not> startsWith r ''/''" by (cases r) (auto simp: startsWith_def)
  then show ?thesis using resolveImportPath_relative [OF True] by simp
next
  case False
  then show ?thesis by (simp add: resolveImportPath_def)
qed

lemma resolve_rooted: "startsWith r ''/'' \<Longrightarrow> resolveImportPath r here = r"
  by (cases r) (auto simp: resolveImportPath_def startsWith_def)

lemma filter_resolved:
  "filter (\<lambda>i. startsWith i ''./'' \<or> startsWith i ''../'' \<or> startsWith i ''/'')
     (map (\<lambda>m. resolveImportPath m here) rs) = filter (\<lambda>r. startsWith r ''/'') rs"
proof (induction rs)
  case Nil
  then show ?case by simp
next
  case (Cons r rs)
  then show ?case using kept_import [of r here] resolve_rooted [of r here] by auto
qed

lemma parseImports_rooted_only:
  "parseImports txt here =
     filter (\<lambda>r. startsWith r ''/'') (execAll importRegex 0 txt @ execAll requireRegex 0 txt)"
  using filter_resolved [of here "execAll importRegex 0 txt @ execAll requireRegex 0 txt"]
  by (simp add: parseImports_def Let_def)

text \<open>
  Claim C2. The extractor is to return every quoted reference that begins with
  \<^verbatim>\<open>./\<close> or \<^verbatim>\<open>../\<close>, resolved against the directory of the owner path, so that
  for the owner path \<^verbatim>\<open>a/b/c.ts\<close> a content importing \<^verbatim>\<open>../d\<close> yields the single
  path \<^verbatim>\<open>a/d\<close>. The code resolves the reference to \<^verbatim>\<open>a/d\<close> and then filters the
  resolved paths by the markers \<^verbatim>\<open>./\<close>, \<^verbatim>\<open>../\<close> and \<^verbatim>\<open>/\<close>, which no resolved
  relative reference begins with (\<open>parseImports_rooted_only\<close>): at this input
  \<^verbatim>\<open>parseImports\<close> returns the empty list, although the reference itself resolves to
  \<^verbatim>\<open>a/d\<close>.
\<close>

theorem parseImports_drops_relative:
  \<open>parseImports ''import { d } from '../d';'' ''a/b/c.ts'' = []
   \<and> resolveImportPath ''../d'' ''a/b/c.ts'' = ''a/d''\<close>
  by code_simp


section \<open>The usage ledger\<close>

text \<open>
  Claim C9. For every state of the client, \<^verbatim>\<open>resetSessionCost\<close> sets the session cost
  and the four token counters to zero and changes nothing else: the daily and the monthly
  cost after the reset are what they were before it, and so is the model of the client.
\<close>

theorem resetSessionCost_frame:
  "sessionCost (costTracker (resetSessionCost cl)) = 0
   \<and> tokensUsed (costTracker (resetSessionCost cl))
       = \<lparr>tok_input = 0, tok_output = 0, tok_cacheRead = 0, tok_cacheWrite = 0\<rparr>
   \<and> dailyCost (costTracker (resetSessionCost cl)) = dailyCost (costTracker cl)
   \<and> monthlyCost (costTracker (resetSessionCost cl)) = monthlyCost (costTracker cl)
   \<and> model (resetSessionCost cl) = model cl"
  by (simp add: resetSessionCost_def)


text \<open>
  The cost arithmetic is evaluated on the doubles: the values below are the doubles that the
  expressions of \<^verbatim>\<open>calculateCost\<close> yield.
\<close>

lemma rnd64_zero: "rnd64 0 = 0"
  by (simp add: rnd64_def)

lemma fmul_zero: "fmul 0 x = 0"
  by (simp add: fmul_def rnd64_zero)

lemma fdiv_zero: "fdiv 0 x = 0"
  by (simp add: fdiv_def rnd64_zero)

text \<open>
  A whole number below \<open>2 ^ 53\<close> is a double: rounding leaves it as it is, and the sum of
  two natural numbers is exact as long as it stays below \<open>2 ^ 53\<close>.
\<close>

lemma normalise_whole:
  "q \<in> \<int> \<Longrightarrow> q < 2 ^ 53 \<Longrightarrow> normalise n q e = (q', e')
     \<Longrightarrow> q' \<in> \<int> \<and> q' * 2 powi e' = q * 2 powi e"
proof (induction n arbitrary: q e)
  case 0
  then show ?case by (simp add: normalise.simps)
next
  case (Suc n)
  show ?case
  proof (cases "q < 2 ^ 52 \<and> - 1074 < e")
    case True
    have n: "normalise n (q * 2) (e - 1) = (q', e')"
      using Suc.prems True by (simp add: normalise.simps [of "Suc n"])
    have "q * 2 \<in> \<int>" using Suc.prems(1) by simp
    moreover have "q * 2 < 2 ^ 53" using True by simp
    ultimately have "q' \<in> \<int> \<and> q' * 2 powi e' = (q * 2) * 2 powi (e - 1)"
      using Suc.IH n by blast
    moreover have "(q * 2) * 2 powi (e - 1) = q * 2 powi e"
      by (simp add: power_int_diff)
    ultimately show ?thesis by simp
  next
    case False
    then have "normalise (Suc n) q e = (q, e)"
      using Suc.prems(2) by (auto simp add: normalise.simps [of "Suc n"])
    then show ?thesis using Suc.prems by simp
  qed
qed

lemma roundEven_whole: "q \<in> \<int> \<Longrightarrow> of_int (roundEven q) = q"
  by (auto simp: roundEven_def Ints_def)

lemma rnd64_whole: "x \<in> \<int> \<Longrightarrow> \<bar>x\<bar> < 2 ^ 53 \<Longrightarrow> rnd64 x = x"
proof (cases "x = 0")
  case True
  then show ?thesis by (simp add: rnd64_def)
next
  case False
  assume x: "x \<in> \<int>" "\<bar>x\<bar> < 2 ^ 53"
  obtain q e where n: "normalise 2200 \<bar>x\<bar> 0 = (q, e)" by (cases "normalise 2200 \<bar>x\<bar> 0")
  have "\<bar>x\<bar> \<in> \<int>" using x(1) by simp
  then have q: "q \<in> \<int>" "q * 2 powi e = \<bar>x\<bar>"
    using normalise_whole [OF _ x(2) n] by simp_all
  have "rnd64 x = sgn x * (of_int (roundEven q) * 2 powi e)"
    using False n by (simp add: rnd64_def)
  also have "\<dots> = sgn x * \<bar>x\<bar>" using q roundEven_whole by simp
  also have "\<dots> = x" by (simp add: sgn_mult_abs)
  finally show ?thesis .
qed

lemma fadd_whole:
  "x \<in> \<nat> \<Longrightarrow> y \<in> \<nat> \<Longrightarrow> x + y < 2 ^ 53 \<Longrightarrow> fadd x y = x + y"
proof -
  assume a: "x \<in> \<nat>" "y \<in> \<nat>" "x + y < 2 ^ 53"
  have "x + y \<in> \<nat>" using a by simp
  then have "x + y \<in> \<int>" "0 \<le> x + y" using Nats_subset_Ints by (auto simp: Nats_altdef2)
  then show ?thesis unfolding fadd_def using a(3) by (intro rnd64_whole) simp_all
qed

lemma rnd64_small:
  "rnd64 3 = 3" "rnd64 15 = 15" "rnd64 75 = 75" "rnd64 1000000 = 1000000"
  by (simp_all add: rnd64_whole)

lemma calculateCost_plain:
  "calculateCost m (usageOf i out 0 0) =
     fadd (fadd (fadd (fdiv (fmul i (inputRate (PRICING m))) 1000000)
                      (fdiv (fmul out (outputRate (PRICING m))) 1000000)) 0) 0"
  by (simp add: calculateCost_def usageOf_def Let_def rnd64_small fmul_zero fdiv_zero)

lemma cost_Sonnet_0_1:
  "calculateCost Sonnet (usageOf 0 1 0 0) = 8854437155380585 / 590295810358705651712"
  by (simp add: calculateCost_plain rnd64_small fadd_def fmul_def fdiv_def rnd64_def
      normalise.simps roundEven_def)

lemma cost_Sonnet_5_2:
  "calculateCost Sonnet (usageOf 5 2 0 0) = 6640827866535439 / 147573952589676412928"
  by (simp add: calculateCost_plain rnd64_small fadd_def fmul_def fdiv_def rnd64_def
      normalise.simps roundEven_def)

lemma cost_Sonnet_3_1:
  "calculateCost Sonnet (usageOf 3 1 0 0) = 1770887431076117 / 73786976294838206464"
  by (simp add: calculateCost_plain rnd64_small fadd_def fmul_def fdiv_def rnd64_def
      normalise.simps roundEven_def)

lemma cost_Sonnet_8_3:
  "calculateCost Sonnet (usageOf 8 3 0 0) = 1272825341085959 / 18446744073709551616"
  by (simp add: calculateCost_plain rnd64_small fadd_def fmul_def fdiv_def rnd64_def
      normalise.simps roundEven_def)

lemma cost_Opus_5_2:
  "calculateCost Opus (usageOf 5 2 0 0) = 4150517416584649 / 18446744073709551616"
  by (simp add: calculateCost_plain rnd64_small fadd_def fmul_def fdiv_def rnd64_def
      normalise.simps roundEven_def)

lemma cost_Opus_3_1:
  "calculateCost Opus (usageOf 3 1 0 0) = 1106804644422573 / 9223372036854775808"
  by (simp add: calculateCost_plain rnd64_small fadd_def fmul_def fdiv_def rnd64_def
      normalise.simps roundEven_def)

lemma cost_Opus_8_3:
  "calculateCost Opus (usageOf 8 3 0 0) = 6364126705429795 / 18446744073709551616"
  by (simp add: calculateCost_plain rnd64_small fadd_def fmul_def fdiv_def rnd64_def
      normalise.simps roundEven_def)

lemma updateCostTracker_fields:
  "sessionCost (costTracker (updateCostTracker cl u))
     = fadd (sessionCost (costTracker cl)) (calculateCost (model cl) u)"
  "dailyCost (costTracker (updateCostTracker cl u))
     = fadd (dailyCost (costTracker cl)) (calculateCost (model cl) u)"
  "monthlyCost (costTracker (updateCostTracker cl u))
     = fadd (monthlyCost (costTracker cl)) (calculateCost (model cl) u)"
  "model (updateCostTracker cl u) = model cl"
  by (simp_all add: updateCostTracker_def Let_def)

lemma updateCostTracker_tokens:
  "tokensUsed (costTracker (updateCostTracker cl (usageOf i out cw cr)))
     = \<lparr>tok_input = fadd (tok_input (tokensUsed (costTracker cl))) i,
        tok_output = fadd (tok_output (tokensUsed (costTracker cl))) out,
        tok_cacheRead = fadd (tok_cacheRead (tokensUsed (costTracker cl))) cr,
        tok_cacheWrite = fadd (tok_cacheWrite (tokensUsed (costTracker cl))) cw\<rparr>"
  by (simp add: updateCostTracker_def usageOf_def Let_def)

lemma fadd_counts:
  assumes "c \<in> \<nat>" "c + 8 < 2 ^ 53"
  shows "fadd (fadd c 5) 3 = c + 8" "fadd c 8 = c + 8"
    "fadd (fadd c 2) 1 = c + 3" "fadd c 3 = c + 3"
    "fadd (fadd c 0) 0 = c" "fadd c 0 = c"
proof -
  have 5: "fadd c 5 = c + 5" using assms by (intro fadd_whole) simp_all
  have "fadd (c + 5) 3 = c + 5 + 3" using assms by (intro fadd_whole) simp_all
  then show "fadd (fadd c 5) 3 = c + 8" using 5 by simp
  show "fadd c 8 = c + 8" using assms by (intro fadd_whole) simp_all
  have 2: "fadd c 2 = c + 2" using assms by (intro fadd_whole) simp_all
  have "fadd (c + 2) 1 = c + 2 + 1" using assms by (intro fadd_whole) simp_all
  then show "fadd (fadd c 2) 1 = c + 3" using 2 by simp
  show "fadd c 3 = c + 3" using assms by (intro fadd_whole) simp_all
  have "fadd c 0 = c + 0" using assms by (intro fadd_whole) simp_all
  then show 0: "fadd c 0 = c" by simp
  show "fadd (fadd c 0) 0 = c" by (simp only: 0)
qed

lemma tokens_twice:
  assumes "exactCounts (tokensUsed (costTracker cl))"
  shows "tokensUsed (costTracker (updateCostTracker (updateCostTracker cl (usageOf 5 2 0 0))
       (usageOf 3 1 0 0)))
     = \<lparr>tok_input = tok_input (tokensUsed (costTracker cl)) + 8,
        tok_output = tok_output (tokensUsed (costTracker cl)) + 3,
        tok_cacheRead = tok_cacheRead (tokensUsed (costTracker cl)),
        tok_cacheWrite = tok_cacheWrite (tokensUsed (costTracker cl))\<rparr>"
  using assms unfolding exactCounts_def updateCostTracker_tokens
  by (simp add: fadd_counts)

lemma tokens_once:
  assumes "exactCounts (tokensUsed (costTracker cl))"
  shows "tokensUsed (costTracker (updateCostTracker cl (usageOf 8 3 0 0)))
     = \<lparr>tok_input = tok_input (tokensUsed (costTracker cl)) + 8,
        tok_output = tok_output (tokensUsed (costTracker cl)) + 3,
        tok_cacheRead = tok_cacheRead (tokensUsed (costTracker cl)),
        tok_cacheWrite = tok_cacheWrite (tokensUsed (costTracker cl))\<rparr>"
  using assms unfolding exactCounts_def updateCostTracker_tokens
  by (simp add: fadd_counts)

lemma exactCounts_new: "exactCounts (tokensUsed (costTracker (newClaudeClient md)))"
  by (simp add: exactCounts_def newClaudeClient_def)

lemma afterOne_counts:
  "tokensUsed (costTracker afterOne)
     = \<lparr>tok_input = 0, tok_output = 1, tok_cacheRead = 0, tok_cacheWrite = 0\<rparr>"
proof -
  have "fadd 0 0 = 0 + 0" by (intro fadd_whole) simp_all
  moreover have "fadd 0 1 = 0 + 1" by (intro fadd_whole) simp_all
  ultimately show ?thesis
    unfolding afterOne_def updateCostTracker_tokens by (simp add: newClaudeClient_def)
qed

lemma exactCounts_afterOne: "exactCounts (tokensUsed (costTracker afterOne))"
  unfolding afterOne_counts by (simp add: exactCounts_def)

lemma bigLedger_twice:
  "tok_input (tokensUsed (costTracker (updateCostTracker (updateCostTracker bigLedger
       (usageOf 5 2 0 0)) (usageOf 3 1 0 0)))) = 2 ^ 53 + 12"
  unfolding updateCostTracker_tokens
  by (simp add: bigLedger_def fadd_def rnd64_def normalise.simps roundEven_def)

lemma bigLedger_once:
  "tok_input (tokensUsed (costTracker (updateCostTracker bigLedger (usageOf 8 3 0 0))))
     = 2 ^ 53 + 10"
  unfolding updateCostTracker_tokens
  by (simp add: bigLedger_def fadd_def rnd64_def normalise.simps roundEven_def)

lemma fresh_sum_Sonnet:
  "fadd (fadd 0 (calculateCost Sonnet (usageOf 5 2 0 0))) (calculateCost Sonnet (usageOf 3 1 0 0))
     = fadd 0 (calculateCost Sonnet (usageOf 8 3 0 0))"
  unfolding cost_Sonnet_5_2 cost_Sonnet_3_1 cost_Sonnet_8_3
  by (simp add: fadd_def rnd64_def normalise.simps roundEven_def)

lemma fresh_sum_Opus:
  "fadd (fadd 0 (calculateCost Opus (usageOf 5 2 0 0))) (calculateCost Opus (usageOf 3 1 0 0))
     = fadd 0 (calculateCost Opus (usageOf 8 3 0 0))"
  unfolding cost_Opus_5_2 cost_Opus_3_1 cost_Opus_8_3
  by (simp add: fadd_def rnd64_def normalise.simps roundEven_def)

lemma costTracker_eqI:
  "sessionCost a = sessionCost b \<Longrightarrow> dailyCost a = dailyCost b \<Longrightarrow> monthlyCost a = monthlyCost b
    \<Longrightarrow> tokensUsed a = tokensUsed b \<Longrightarrow> (a :: CostTracker) = b"
  by simp

lemma fresh_merge:
  "costTracker (updateCostTracker (updateCostTracker (newClaudeClient md) (usageOf 5 2 0 0))
       (usageOf 3 1 0 0))
     = costTracker (updateCostTracker (newClaudeClient md) (usageOf 8 3 0 0))"
proof -
  have s: "fadd (fadd 0 (calculateCost md (usageOf 5 2 0 0))) (calculateCost md (usageOf 3 1 0 0))
     = fadd 0 (calculateCost md (usageOf 8 3 0 0))"
    using fresh_sum_Sonnet fresh_sum_Opus by (cases md) simp_all
  have z: "sessionCost (costTracker (newClaudeClient md)) = 0"
      "dailyCost (costTracker (newClaudeClient md)) = 0"
      "monthlyCost (costTracker (newClaudeClient md)) = 0"
      "model (newClaudeClient md) = md"
    by (simp_all add: newClaudeClient_def)
  have t: "tokensUsed (costTracker (updateCostTracker (updateCostTracker (newClaudeClient md)
        (usageOf 5 2 0 0)) (usageOf 3 1 0 0)))
      = tokensUsed (costTracker (updateCostTracker (newClaudeClient md) (usageOf 8 3 0 0)))"
    by (simp only: tokens_twice [OF exactCounts_new] tokens_once [OF exactCounts_new])
  show ?thesis
    by (rule costTracker_eqI) (simp_all only: updateCostTracker_fields z s t)
qed

text \<open>
  Claim C8, as the code has it. The claim says that for every starting ledger recording
  \<^verbatim>\<open>{5,2,0,0}\<close> and then \<^verbatim>\<open>{3,1,0,0}\<close> gives the same totals as recording
  \<^verbatim>\<open>{8,3,0,0}\<close> once. All seven totals are doubles, and the addition of doubles
  rounds. On the ledger of a client that has recorded one response of one output token before,
  the session cost is \<open>3099053004383205 / 2 ^ 65\<close> after the two recordings and
  \<open>6198106008766409 / 2 ^ 66\<close> after the one. On a ledger whose counter of input tokens
  is \<open>2 ^ 53 + 2\<close>, the counter is \<open>2 ^ 53 + 12\<close> after the two recordings and
  \<open>2 ^ 53 + 10\<close> after the one.
\<close>

theorem recording_costs_differ:
  "sessionCost (costTracker (updateCostTracker (updateCostTracker afterOne (usageOf 5 2 0 0))
       (usageOf 3 1 0 0)))
     \<noteq> sessionCost (costTracker (updateCostTracker afterOne (usageOf 8 3 0 0)))
   \<and> tok_input (tokensUsed (costTracker (updateCostTracker (updateCostTracker bigLedger
       (usageOf 5 2 0 0)) (usageOf 3 1 0 0))))
     \<noteq> tok_input (tokensUsed (costTracker (updateCostTracker bigLedger (usageOf 8 3 0 0))))"
proof -
  have z: "sessionCost (costTracker (newClaudeClient Sonnet)) = 0"
      "model (newClaudeClient Sonnet) = Sonnet"
    by (simp_all add: newClaudeClient_def)
  have a: "sessionCost (costTracker afterOne) = 8854437155380585 / 590295810358705651712"
    unfolding afterOne_def updateCostTracker_fields z cost_Sonnet_0_1
    by (simp add: fadd_def rnd64_def normalise.simps roundEven_def)
  have m: "model afterOne = Sonnet"
    unfolding afterOne_def updateCostTracker_fields z by (rule refl)
  have l: "sessionCost (costTracker (updateCostTracker (updateCostTracker afterOne
        (usageOf 5 2 0 0)) (usageOf 3 1 0 0))) = 3099053004383205 / 36893488147419103232"
    unfolding updateCostTracker_fields a m cost_Sonnet_5_2 cost_Sonnet_3_1
    by (simp add: fadd_def rnd64_def normalise.simps roundEven_def)
  have r: "sessionCost (costTracker (updateCostTracker afterOne (usageOf 8 3 0 0)))
      = 6198106008766409 / 73786976294838206464"
    unfolding updateCostTracker_fields a m cost_Sonnet_8_3
    by (simp add: fadd_def rnd64_def normalise.simps roundEven_def)
  show ?thesis
    unfolding l r bigLedger_twice bigLedger_once by simp
qed

text \<open>
  Claim C8, amended. For every starting ledger whose four token counters are whole numbers
  below \<open>2 ^ 53 - 8\<close>, recording \<^verbatim>\<open>{5,2,0,0}\<close> and then \<^verbatim>\<open>{3,1,0,0}\<close>
  yields the same four token counters as recording \<^verbatim>\<open>{8,3,0,0}\<close> once: the input
  counter has grown by 8, the output counter by 3 and the two cache counters are unchanged.
  On the ledger of a new client, with the prices of either model, the two recordings and the
  one yield the same ledger, the three cost totals and the four counters.
\<close>

theorem recording_merges_counts:
  "(exactCounts (tokensUsed (costTracker cl)) \<longrightarrow>
      tokensUsed (costTracker (updateCostTracker (updateCostTracker cl (usageOf 5 2 0 0))
          (usageOf 3 1 0 0)))
        = tokensUsed (costTracker (updateCostTracker cl (usageOf 8 3 0 0)))
      \<and> tokensUsed (costTracker (updateCostTracker cl (usageOf 8 3 0 0)))
        = \<lparr>tok_input = tok_input (tokensUsed (costTracker cl)) + 8,
           tok_output = tok_output (tokensUsed (costTracker cl)) + 3,
           tok_cacheRead = tok_cacheRead (tokensUsed (costTracker cl)),
           tok_cacheWrite = tok_cacheWrite (tokensUsed (costTracker cl))\<rparr>)
   \<and> costTracker (updateCostTracker (updateCostTracker (newClaudeClient md) (usageOf 5 2 0 0))
       (usageOf 3 1 0 0))
     = costTracker (updateCostTracker (newClaudeClient md) (usageOf 8 3 0 0))"
  using tokens_twice [of cl] tokens_once [of cl] fresh_merge [of md] by simp

theorem recording_merges_counts_witness:
  "exactCounts (tokensUsed (costTracker afterOne))
   \<and> tokensUsed (costTracker (updateCostTracker (updateCostTracker afterOne (usageOf 5 2 0 0))
       (usageOf 3 1 0 0)))
     = \<lparr>tok_input = 8, tok_output = 4, tok_cacheRead = 0, tok_cacheWrite = 0\<rparr>"
  using recording_merges_counts [of afterOne Sonnet] exactCounts_afterOne
  by (simp add: afterOne_counts)


section \<open>The edit applier\<close>

lemma includesStr_empty: "includesStr s []"
  by (induction s) auto

lemma indexOf_empty: "indexOf s [] = Some 0"
  by (cases s) auto

lemma getSubstitution_literal:
  "CHR ''$'' \<notin> set t \<Longrightarrow> getSubstitution matched str position t = t"
  by (induction matched str position t rule: getSubstitution.induct) auto

lemma replaceStr_literal:
  "CHR ''$'' \<notin> set new \<Longrightarrow> indexOf s old = Some i
    \<Longrightarrow> replaceStr s old new = take i s @ new @ drop (i + length old) s"
  by (simp add: replaceStr_def getSubstitution_literal)

lemma indexOf_includes: "includesStr s p \<longleftrightarrow> indexOf s p \<noteq> None"
  by (induction s) auto

lemma indexOf_prefix: "indexOf s p = Some i \<Longrightarrow> prefix p (drop i s) \<and> i \<le> length s"
proof (induction s arbitrary: i)
  case Nil
  then show ?case by (auto split: if_splits)
next
  case (Cons c cs)
  then show ?case by (auto split: if_splits)
qed

lemma applyStrReplace_not_found:
  "getFileContent gh w p branch = Inr f \<Longrightarrow> \<not> includesStr (content f) old
    \<Longrightarrow> applyStrReplace gh w p old new branch = (failed (notFoundMessage p), w)"
  by (simp add: applyStrReplace_def)

lemma applyStrReplace_ambiguous:
  "getFileContent gh w p branch = Inr f \<Longrightarrow> includesStr (content f) old
    \<Longrightarrow> 2 < length (splitStr (content f) old)
    \<Longrightarrow> applyStrReplace gh w p old new branch
        = (failed (ambiguousMessage (int (length (splitStr (content f) old)) - 1) p), w)"
  by (simp add: applyStrReplace_def Let_def)

lemma applyStrReplace_unique:
  "getFileContent gh w p branch = Inr f \<Longrightarrow> includesStr (content f) old
    \<Longrightarrow> length (splitStr (content f) old) \<le> 2
    \<Longrightarrow> applyStrReplace gh w p old new branch
        = (case updateFile gh w p (replaceStr (content f) old new) (''Edit '' @ p) branch
                  (Some (sha f)) of
             (Some e, w') \<Rightarrow> (failed (message e), w')
           | (None, w') \<Rightarrow> (succeeded, w'))"
  by (simp add: applyStrReplace_def Let_def)

lemma applyStrReplace_empty_long:
  "getFileContent gh w p branch = Inr f \<Longrightarrow> 3 \<le> length (content f)
    \<Longrightarrow> applyStrReplace gh w p [] new branch
        = (failed (ambiguousMessage (int (length (content f)) - 1) p), w)"
  using applyStrReplace_ambiguous [of gh w p branch f "[]" new]
  by (simp add: includesStr_empty splitStr_def)

lemma applyStrReplace_empty_short:
  "getFileContent gh w p branch = Inr f \<Longrightarrow> length (content f) \<le> 2
    \<Longrightarrow> CHR ''$'' \<notin> set new
    \<Longrightarrow> applyStrReplace gh w p [] new branch
        = (case updateFile gh w p (new @ content f) (''Edit '' @ p) branch (Some (sha f)) of
             (Some e, w') \<Rightarrow> (failed (message e), w')
           | (None, w') \<Rightarrow> (succeeded, w'))"
  using applyStrReplace_unique [of gh w p branch f "[]" new]
    replaceStr_literal [of new "content f" "[]" 0]
  by (simp add: includesStr_empty splitStr_def indexOf_empty)

text \<open>
  Claim C3. \<^verbatim>\<open>applyStrReplace\<close> is to fail with the not-found error when
  \<^verbatim>\<open>oldStr\<close> does not occur, to fail with the ambiguity error when it occurs more than
  once, and otherwise to substitute \<^verbatim>\<open>newStr\<close> for the one occurrence and to write
  the result with the hash just fetched. The two failures and the write with the fetched hash
  are as claimed (\<open>applyStrReplace_not_found\<close>, \<open>applyStrReplace_ambiguous\<close>,
  \<open>applyStrReplace_unique\<close>), and the written text is the literal substitution when
  \<^verbatim>\<open>newStr\<close> has no dollar sign (\<open>replaceStr_literal\<close>). But the code hands
  \<^verbatim>\<open>newStr\<close> to \<^verbatim>\<open>replace\<close> as a replacement pattern: for the content
  \<^verbatim>\<open>abc\<close>, \<^verbatim>\<open>oldStr\<close> \<^verbatim>\<open>b\<close> and \<^verbatim>\<open>newStr\<close> \<^verbatim>\<open>$$\<close> it
  succeeds and writes \<^verbatim>\<open>a$c\<close>, where the substitution of \<^verbatim>\<open>newStr\<close> is
  \<^verbatim>\<open>a$$c\<close>.
\<close>

theorem applyStrReplace_expands_dollar:
  \<open>applyStrReplace memClient [''f.txt'' \<mapsto> fileOf ''abc''] ''f.txt'' ''b'' ''$$'' ''main''
     = (succeeded, [''f.txt'' \<mapsto> fileOf ''a$c''])\<close>
  by (simp add: applyStrReplace_def getFileContent_def updateFile_def memClient_def
      memGetContent_def memWrite_def fileOf_def hashOf_def splitStr_def replaceStr_def Let_def)

text \<open>
  Claim C10. With the empty \<^verbatim>\<open>oldStr\<close> the not-found error never arises
  (\<open>includesStr_empty\<close>); a content of three or more characters fails with the
  ambiguity error, which reports the length of the content minus one
  (\<open>applyStrReplace_empty_long\<close>); a content of at most two characters is written back
  with \<^verbatim>\<open>newStr\<close> in front of it when \<^verbatim>\<open>newStr\<close> has no dollar sign
  (\<open>applyStrReplace_empty_short\<close>). With a dollar pattern the text put in front is not
  \<^verbatim>\<open>newStr\<close>: for the content \<^verbatim>\<open>ab\<close> and \<^verbatim>\<open>newStr\<close> \<^verbatim>\<open>$$\<close> the code
  writes \<^verbatim>\<open>$ab\<close>, where \<^verbatim>\<open>newStr\<close> in front of the content is \<^verbatim>\<open>$$ab\<close>.
\<close>

theorem applyStrReplace_empty_expands_dollar:
  \<open>applyStrReplace memClient [''f.txt'' \<mapsto> fileOf ''ab''] ''f.txt'' [] ''$$'' ''main''
     = (succeeded, [''f.txt'' \<mapsto> fileOf ''$ab''])\<close>
  by (simp add: applyStrReplace_def getFileContent_def updateFile_def memClient_def
      memGetContent_def memWrite_def fileOf_def hashOf_def splitStr_def replaceStr_def Let_def)


section \<open>The turn\<close>

lemma toolLoop_eq:
  "toolLoop gh branch calls (rs, fs, w)
     = (rs @ toolResultsOf gh branch calls w, fs @ changesOf calls, worldAfter gh branch calls w)"
proof (induction calls arbitrary: rs fs w)
  case Nil
  then show ?case by (simp add: changesOf_def)
next
  case (Cons call calls)
  obtain r w' where e: "executeToolCall gh w call branch = (r, w')"
    by (cases "executeToolCall gh w call branch")
  show ?case
    using Cons.IH e by (simp add: changesOf_def editing_def changeOf_def)
qed

lemma length_toolResultsOf: "length (toolResultsOf gh branch calls w) = length calls"
  by (induction calls arbitrary: w) auto

lemma nth_toolResultsOf:
  "i < length calls \<Longrightarrow>
   toolResultsOf gh branch calls w ! i
     = fst (executeToolCall gh (worldAfter gh branch (take i calls) w) (calls ! i) branch)"
proof (induction calls arbitrary: w i)
  case Nil
  then show ?case by simp
next
  case (Cons call calls)
  then show ?case by (cases i) auto
qed

lemma chat_unfold:
  "chat api cl m msgs CODING_SYSTEM_PROMPT ctx =
     (case api m (requestOf cl msgs ctx) of
        (Inl e, m') \<Rightarrow> (Inl e, cl, m')
      | (Inr r, m') \<Rightarrow>
          (Inr \<lparr>chat_content = textOf (resp_content r),
                 toolCalls = (if toolCallsOf (resp_content r) = [] then None
                              else Some (toolCallsOf (resp_content r))),
                 usage = resp_usage r,
                 cost = calculateCost (model cl) (resp_usage r)\<rparr>,
           updateCostTracker cl (resp_usage r), m'))"
  by (auto simp: chat_def requestOf_def Let_def split: prod.splits sum.splits)

lemma POST_no_calls:
  assumes "api m (requestOf cl msgs ctx) = (Inr r, m1)" and "toolCallsOf (resp_content r) = []"
  shows "POST api gh branch msgs ctx (cl, m, w) =
    (Json \<lparr>body_content = textOf (resp_content r), body_filesChanged = [],
            body_cost = calculateCost (model cl) (resp_usage r),
            body_tokensUsed =
              \<lparr>tok_input = orZero (input_tokens (resp_usage r)),
               tok_output = orZero (output_tokens (resp_usage r)),
               tok_cacheRead = orZero (cache_read_input_tokens (resp_usage r)),
               tok_cacheWrite = orZero (cache_creation_input_tokens (resp_usage r))\<rparr>,
            body_costTracker = costTracker (updateCostTracker cl (resp_usage r))\<rparr>,
     updateCostTracker cl (resp_usage r), m1, w)"
  using assms by (simp add: POST_def chat_unfold getCostTracker_def)

lemma POST_calls:
  assumes "api m (requestOf cl msgs ctx) = (Inr r, m1)" and "toolCallsOf (resp_content r) \<noteq> []"
  shows "POST api gh branch msgs ctx (cl, m, w) =
      (case api m1 (requestOf (updateCostTracker cl (resp_usage r))
                      (followUpMessages gh branch msgs r w) ctx) of
         (Inl e, m2) \<Rightarrow>
           (errorResponse e, updateCostTracker cl (resp_usage r), m2,
            worldAfter gh branch (toolCallsOf (resp_content r)) w)
       | (Inr r2, m2) \<Rightarrow>
           (Json \<lparr>body_content = textOf (resp_content r2),
                   body_filesChanged = changesOf (toolCallsOf (resp_content r)),
                   body_cost = fadd (calculateCost (model cl) (resp_usage r))
                     (calculateCost (model cl) (resp_usage r2)),
                   body_tokensUsed =
                     \<lparr>tok_input = fadd (orZero (input_tokens (resp_usage r)))
                        (orZero (input_tokens (resp_usage r2))),
                      tok_output = fadd (orZero (output_tokens (resp_usage r)))
                        (orZero (output_tokens (resp_usage r2))),
                      tok_cacheRead = fadd (orZero (cache_read_input_tokens (resp_usage r)))
                        (orZero (cache_read_input_tokens (resp_usage r2))),
                      tok_cacheWrite = fadd (orZero (cache_creation_input_tokens (resp_usage r)))
                        (orZero (cache_creation_input_tokens (resp_usage r2)))\<rparr>,
                   body_costTracker =
                     costTracker (updateCostTracker (updateCostTracker cl (resp_usage r))
                       (resp_usage r2))\<rparr>,
            updateCostTracker (updateCostTracker cl (resp_usage r)) (resp_usage r2), m2,
            worldAfter gh branch (toolCallsOf (resp_content r)) w))"
proof -
  have n: "toolResultsOf gh branch (toolCallsOf (resp_content r)) w \<noteq> []"
    using assms(2) length_toolResultsOf [of gh branch "toolCallsOf (resp_content r)" w]
    by (metis length_0_conv)
  have mdl: "model (updateCostTracker cl (resp_usage r)) = model cl"
    by (simp add: updateCostTracker_def Let_def)
  show ?thesis
    using assms n
    by (simp add: POST_def chat_unfold toolLoop_eq Let_def getCostTracker_def mdl
        followUpMessages_def split: prod.splits sum.splits)
qed

lemma example_tool_results:
  "toolResultsOf memClient ''main'' [createCall, replaceCall] store0
     = [succeeded, failed (ambiguousMessage 2 ''f.txt'')]"
  by (simp add: executeToolCall_def toolSwitch_def createCall_def replaceCall_def noInput_def
      store0_def updateFile_def memClient_def memWrite_def memGetContent_def applyStrReplace_def
      getFileContent_def fileOf_def hashOf_def splitStr_def Let_def)

lemma example_turn:
  "\<exists>b. fst (POST scripted memClient ''main'' [Message User ''go''] ''ctx''
               (newClaudeClient Sonnet, [toolRound, textRound], store0)) = Json b
     \<and> body_filesChanged b =
         [\<lparr>fc_path = ''new.txt'', action = Create, diff = None\<rparr>,
          \<lparr>fc_path = ''f.txt'', action = Edit, diff = None\<rparr>]"
proof -
  have a: "scripted [toolRound, textRound]
             (requestOf (newClaudeClient Sonnet) [Message User ''go''] ''ctx'')
           = (Inr toolRound, [textRound])"
    by (simp add: scripted_def)
  have b: "toolCallsOf (resp_content toolRound) \<noteq> []"
    by (simp add: toolRound_def)
  have c: "changesOf (toolCallsOf (resp_content toolRound)) =
         [\<lparr>fc_path = ''new.txt'', action = Create, diff = None\<rparr>,
          \<lparr>fc_path = ''f.txt'', action = Edit, diff = None\<rparr>]"
    by (simp add: toolRound_def changesOf_def editing_def changeOf_def createCall_def
        replaceCall_def noInput_def)
  show ?thesis
    using POST_calls [where api = scripted and m = "[toolRound, textRound]" and r = toolRound
        and cl = "newClaudeClient Sonnet" and msgs = "[Message User ''go'']" and ctx = "''ctx''"
        and ?m1.0 = "[textRound]" and gh = memClient and branch = "''main''" and w = store0,
        OF a b] c
    by (simp add: scripted_def)
qed

text \<open>The summary of the tool results that the second round of this turn is sent.\<close>

lemma example_summary:
  "followUpMessages memClient ''main'' [Message User ''go''] toolRound store0 =
     [Message User ''go'', Message Assistant ''I will edit.'',
      Message User (''Tool results:'' @ [CHR 0x0A]
        @ ''Tool create_file: Success'' @ [CHR 0x0A]
        @ ''Tool str_replace: Failed - String found 2 times in f.txt. It must be unique for safe replacement.''
        @ [CHR 0x0A, CHR 0x0A] @ ''Please summarize what was done.'')]"
proof -
  have c: "toolCallsOf (resp_content toolRound) = [createCall, replaceCall]"
    by (simp add: toolRound_def createCall_def replaceCall_def)
  have m: "ambiguousMessage 2 ''f.txt''
      = ''String found 2 times in f.txt. It must be unique for safe replacement.''"
    by code_simp
  show ?thesis
    unfolding followUpMessages_def c example_tool_results
    by (simp add: resultLine_def succeeded_def failed_def m createCall_def replaceCall_def
        toolRound_def)
qed

lemma executeToolCall_unknown:
  "name call \<notin> {''read_file'', ''str_replace'', ''create_file'', ''search_files''}
    \<Longrightarrow> executeToolCall gh w call branch = (failed (''Unknown tool: '' @ name call), w)"
  by (simp add: executeToolCall_def toolSwitch_def)

lemma executeToolCall_read_error:
  "name call = ''read_file'' \<Longrightarrow> getFileContent gh w (in_path (call_input call)) branch = Inl e
    \<Longrightarrow> executeToolCall gh w call branch = (failed (message e), w)"
  by (simp add: executeToolCall_def toolSwitch_def)

lemma executeToolCall_create_error:
  "name call = ''create_file''
    \<Longrightarrow> updateFile gh w (in_path (call_input call)) (in_content (call_input call))
          (''Create '' @ in_path (call_input call)) branch None = (Some e, w')
    \<Longrightarrow> executeToolCall gh w call branch = (failed (message e), w')"
  by (simp add: executeToolCall_def toolSwitch_def)

lemma executeToolCall_search_error:
  "name call = ''search_files'' \<Longrightarrow> searchFiles gh w (query (call_input call)) = Inl e
    \<Longrightarrow> executeToolCall gh w call branch = (failed (message e), w)"
  by (simp add: executeToolCall_def toolSwitch_def)

lemma executeToolCall_replace_error:
  "name call = ''str_replace'' \<Longrightarrow> getFileContent gh w (in_path (call_input call)) branch = Inl e
    \<Longrightarrow> executeToolCall gh w call branch = (failed (message e), w)"
  by (simp add: executeToolCall_def toolSwitch_def applyStrReplace_def)

lemma executeToolCall_write_error:
  "name call = ''str_replace''
    \<Longrightarrow> getFileContent gh w (in_path (call_input call)) branch = Inr f
    \<Longrightarrow> includesStr (content f) (old_str (call_input call))
    \<Longrightarrow> length (splitStr (content f) (old_str (call_input call))) \<le> 2
    \<Longrightarrow> updateFile gh w (in_path (call_input call))
          (replaceStr (content f) (old_str (call_input call)) (new_str (call_input call)))
          (''Edit '' @ in_path (call_input call)) branch (Some (sha f)) = (Some e, w')
    \<Longrightarrow> executeToolCall gh w call branch = (failed (message e), w')"
  by (simp add: executeToolCall_def toolSwitch_def applyStrReplace_def Let_def)

lemma POST_completes:
  assumes "\<forall>s req. \<exists>r s'. api s req = (Inr r, s')"
  shows "\<exists>b. fst (POST api gh branch msgs ctx (cl, m, w)) = Json b"
proof -
  obtain r m1 where a: "api m (requestOf cl msgs ctx) = (Inr r, m1)"
    using assms by blast
  show ?thesis
  proof (cases "toolCallsOf (resp_content r) = []")
    case True
    then show ?thesis
      using POST_no_calls [where api = api and m = m and r = r, OF a True, of gh branch w] by simp
  next
    case False
    obtain r2 m2 where b: "api m1 (requestOf (updateCostTracker cl (resp_usage r))
        (followUpMessages gh branch msgs r w) ctx) = (Inr r2, m2)"
      using assms by blast
    show ?thesis
      using POST_calls [where api = api and m = m and r = r, OF a False, of gh branch w] b
      by simp
  qed
qed

text \<open>
  Claim C6. When the response of the first round has no tool call, the turn returns the text
  of that response, an empty list of file changes, and the cost and the token counts of that
  response (a missing counter counts as zero); the model service has been asked once, the
  ledger has been charged once and the remote repository is as it was.
\<close>

theorem no_tool_calls_single_round:
  assumes "api m (requestOf cl msgs ctx) = (Inr r, m1)"
    and "toolCallsOf (resp_content r) = []"
  shows "POST api gh branch msgs ctx (cl, m, w) =
    (Json \<lparr>body_content = textOf (resp_content r), body_filesChanged = [],
            body_cost = calculateCost (model cl) (resp_usage r),
            body_tokensUsed =
              \<lparr>tok_input = orZero (input_tokens (resp_usage r)),
               tok_output = orZero (output_tokens (resp_usage r)),
               tok_cacheRead = orZero (cache_read_input_tokens (resp_usage r)),
               tok_cacheWrite = orZero (cache_creation_input_tokens (resp_usage r))\<rparr>,
            body_costTracker = costTracker (updateCostTracker cl (resp_usage r))\<rparr>,
     updateCostTracker cl (resp_usage r), m1, w)"
  using assms by (rule POST_no_calls)

theorem no_tool_calls_single_round_witness:
  "POST scripted memClient ''main'' [Message User ''hi''] ''ctx''
     (newClaudeClient Sonnet, [textRound, toolRound], store0) =
    (Json \<lparr>body_content = ''Nothing to do.'', body_filesChanged = [],
            body_cost = calculateCost Sonnet someUsage,
            body_tokensUsed = \<lparr>tok_input = 5, tok_output = 2, tok_cacheRead = 0, tok_cacheWrite = 0\<rparr>,
            body_costTracker = costTracker (updateCostTracker (newClaudeClient Sonnet) someUsage)\<rparr>,
     updateCostTracker (newClaudeClient Sonnet) someUsage, [toolRound], store0)"
proof -
  have a: "scripted [textRound, toolRound]
             (requestOf (newClaudeClient Sonnet) [Message User ''hi''] ''ctx'')
           = (Inr textRound, [toolRound])"
    by (simp add: scripted_def)
  have b: "toolCallsOf (resp_content textRound) = []"
    by (simp add: textRound_def)
  show ?thesis
    using no_tool_calls_single_round [where api = scripted and m = "[textRound, toolRound]"
        and cl = "newClaudeClient Sonnet" and msgs = "[Message User ''hi'']" and ctx = "''ctx''"
        and r = textRound and ?m1.0 = "[toolRound]" and gh = memClient and branch = "''main''"
        and w = store0, OF a b]
    by (simp add: textRound_def someUsage_def newClaudeClient_def)
qed

text \<open>
  Claim C1, as the code has it. The claim says that a file change is recorded only for a
  successful call; the code records one for every \<^verbatim>\<open>create_file\<close> or
  \<^verbatim>\<open>str_replace\<close> call without looking at the result. In the run below the first
  round asks for a \<^verbatim>\<open>create_file\<close>, which succeeds, and for a \<^verbatim>\<open>str_replace\<close>
  whose text occurs twice, which fails with the ambiguity error: the returned list has two
  entries, the create and the edit.
\<close>

theorem failed_edit_is_recorded:
  "filesChangedOf (fst (POST scripted memClient ''main'' [Message User ''go''] ''ctx''
       (newClaudeClient Sonnet, [toolRound, textRound], store0)))
     = [\<lparr>fc_path = ''new.txt'', action = Create, diff = None\<rparr>,
        \<lparr>fc_path = ''f.txt'', action = Edit, diff = None\<rparr>]
   \<and> toolResultsOf memClient ''main'' (toolCallsOf (resp_content toolRound)) store0
     = [succeeded, failed (ambiguousMessage 2 ''f.txt'')]"
proof -
  have "toolCallsOf (resp_content toolRound) = [createCall, replaceCall]"
    by (simp add: toolRound_def createCall_def replaceCall_def)
  then show ?thesis
    using example_turn example_tool_results by auto
qed

text \<open>
  Claim C1, amended. Whenever the turn answers with a body, its list of file changes has one
  entry for each \<^verbatim>\<open>create_file\<close> or \<^verbatim>\<open>str_replace\<close> call of the first round, in
  the order of the calls, with the path of the call and the action \<^verbatim>\<open>create\<close> or
  \<^verbatim>\<open>edit\<close>, whether the call succeeded or not; calls of other tools add no entry.
\<close>

theorem turn_changes_per_call:
  assumes "api m (requestOf cl msgs ctx) = (Inr r, m1)"
    and "fst (POST api gh branch msgs ctx (cl, m, w)) = Json b"
  shows "body_filesChanged b = changesOf (toolCallsOf (resp_content r))"
proof (cases "toolCallsOf (resp_content r) = []")
  case True
  then show ?thesis
    using assms(2) POST_no_calls [where api = api and m = m and r = r, OF assms(1) True, of gh branch w]
    by (auto simp: changesOf_def)
next
  case False
  then show ?thesis
    using assms(2) POST_calls [where api = api and m = m and r = r, OF assms(1) False, of gh branch w]
    by (auto simp: errorResponse_def split: prod.splits sum.splits)
qed

theorem turn_changes_per_call_witness:
  "filesChangedOf (fst (POST scripted memClient ''main'' [Message User ''go''] ''ctx''
       (newClaudeClient Sonnet, [toolRound, textRound], store0)))
     = changesOf (toolCallsOf (resp_content toolRound))"
proof -
  have a: "scripted [toolRound, textRound]
             (requestOf (newClaudeClient Sonnet) [Message User ''go''] ''ctx'')
           = (Inr toolRound, [textRound])"
    by (simp add: scripted_def)
  obtain b where b: "fst (POST scripted memClient ''main'' [Message User ''go''] ''ctx''
               (newClaudeClient Sonnet, [toolRound, textRound], store0)) = Json b"
    using example_turn by blast
  show ?thesis
    using turn_changes_per_call [where api = scripted and m = "[toolRound, textRound]"
        and r = toolRound and cl = "newClaudeClient Sonnet" and msgs = "[Message User ''go'']"
        and ctx = "''ctx''" and ?m1.0 = "[textRound]" and gh = memClient and branch = "''main''"
        and w = store0 and b = b, OF a b] b
    by simp
qed

text \<open>
  Claim C7. The loop over the tool calls yields one result per call, the result at each
  position being that of the call at the same position, executed in the state that the calls
  before it left. A call of a tool other than the four known ones yields a failure that names
  the tool. Every error of a repository operation of a tool is caught and becomes a failure
  with its message: the rejected read of \<^verbatim>\<open>read_file\<close> and of \<^verbatim>\<open>str_replace\<close>,
  the rejected write of \<^verbatim>\<open>create_file\<close>, the rejected write of \<^verbatim>\<open>str_replace\<close>
  after a successful read with one occurrence, and the rejected search of
  \<^verbatim>\<open>search_files\<close>; these are all the repository operations of the tools. The turn is
  not aborted by any of this: once the handler has reached its first call of the model, it
  answers with a body whenever the model service answers its requests, whatever the remote
  repository does during the tool calls. (What the handler does before its first call of the
  model is no tool execution and is not part of \<open>POST\<close> here; an error there is answered
  with status 500.)
\<close>

theorem tool_execution_total:
  "length (fst (toolLoop gh branch calls ([], [], w))) = length calls
   \<and> (\<forall>i < length calls.
        fst (toolLoop gh branch calls ([], [], w)) ! i
          = fst (executeToolCall gh (worldAfter gh branch (take i calls) w) (calls ! i) branch))
   \<and> (name call \<notin> {''read_file'', ''str_replace'', ''create_file'', ''search_files''}
        \<longrightarrow> executeToolCall gh w call branch = (failed (''Unknown tool: '' @ name call), w))
   \<and> (name call = ''read_file'' \<or> name call = ''str_replace''
        \<longrightarrow> getFileContent gh w (in_path (call_input call)) branch = Inl e
        \<longrightarrow> executeToolCall gh w call branch = (failed (message e), w))
   \<and> (name call = ''create_file''
        \<longrightarrow> updateFile gh w (in_path (call_input call)) (in_content (call_input call))
              (''Create '' @ in_path (call_input call)) branch None = (Some e, w')
        \<longrightarrow> executeToolCall gh w call branch = (failed (message e), w'))
   \<and> (name call = ''search_files''
        \<longrightarrow> searchFiles gh w (query (call_input call)) = Inl e
        \<longrightarrow> executeToolCall gh w call branch = (failed (message e), w))
   \<and> (name call = ''str_replace''
        \<longrightarrow> getFileContent gh w (in_path (call_input call)) branch = Inr f
        \<longrightarrow> includesStr (content f) (old_str (call_input call))
        \<longrightarrow> length (splitStr (content f) (old_str (call_input call))) \<le> 2
        \<longrightarrow> updateFile gh w (in_path (call_input call))
              (replaceStr (content f) (old_str (call_input call)) (new_str (call_input call)))
              (''Edit '' @ in_path (call_input call)) branch (Some (sha f)) = (Some e, w')
        \<longrightarrow> executeToolCall gh w call branch = (failed (message e), w'))
   \<and> ((\<forall>s req. \<exists>r s'. api s req = (Inr r, s'))
        \<longrightarrow> (\<exists>b. fst (POST api gh branch msgs ctx (cl, m, w)) = Json b))"
proof -
  have 1: "length (fst (toolLoop gh branch calls ([], [], w))) = length calls"
    by (simp add: toolLoop_eq length_toolResultsOf)
  have 2: "\<forall>i < length calls.
        fst (toolLoop gh branch calls ([], [], w)) ! i
          = fst (executeToolCall gh (worldAfter gh branch (take i calls) w) (calls ! i) branch)"
    by (simp add: toolLoop_eq nth_toolResultsOf)
  have 3: "name call \<notin> {''read_file'', ''str_replace'', ''create_file'', ''search_files''}
        \<longrightarrow> executeToolCall gh w call branch = (failed (''Unknown tool: '' @ name call), w)"
    using executeToolCall_unknown [of call gh w branch] by blast
  have 4: "name call = ''read_file'' \<or> name call = ''str_replace''
        \<longrightarrow> getFileContent gh w (in_path (call_input call)) branch = Inl e
        \<longrightarrow> executeToolCall gh w call branch = (failed (message e), w)"
    using executeToolCall_read_error [of call gh w branch e]
      executeToolCall_replace_error [of call gh w branch e] by blast
  have 5: "name call = ''create_file''
        \<longrightarrow> updateFile gh w (in_path (call_input call)) (in_content (call_input call))
              (''Create '' @ in_path (call_input call)) branch None = (Some e, w')
        \<longrightarrow> executeToolCall gh w call branch = (failed (message e), w')"
    using executeToolCall_create_error [of call gh w branch e w'] by blast
  have 6: "name call = ''search_files''
        \<longrightarrow> searchFiles gh w (query (call_input call)) = Inl e
        \<longrightarrow> executeToolCall gh w call branch = (failed (message e), w)"
    using executeToolCall_search_error [of call gh w e branch] by blast
  have 7: "name call = ''str_replace''
        \<longrightarrow> getFileContent gh w (in_path (call_input call)) branch = Inr f
        \<longrightarrow> includesStr (content f) (old_str (call_input call))
        \<longrightarrow> length (splitStr (content f) (old_str (call_input call))) \<le> 2
        \<longrightarrow> updateFile gh w (in_path (call_input call))
              (replaceStr (content f) (old_str (call_input call)) (new_str (call_input call)))
              (''Edit '' @ in_path (call_input call)) branch (Some (sha f)) = (Some e, w')
        \<longrightarrow> executeToolCall gh w call branch = (failed (message e), w')"
    using executeToolCall_write_error [of call gh w branch f e w'] by blast
  have 8: "(\<forall>s req. \<exists>r s'. api s req = (Inr r, s'))
        \<longrightarrow> (\<exists>b. fst (POST api gh branch msgs ctx (cl, m, w)) = Json b)"
    using POST_completes [of api gh branch msgs ctx cl m w] by blast
  show ?thesis
    using 1 2 3 4 5 6 7 8 by (intro conjI)
qed

theorem tool_execution_total_witness:
  "fst (toolLoop memClient ''main'' [createCall, replaceCall, unknownCall, readCall]
          ([], [], store0)) ! 2 = failed ''Unknown tool: frob''
   \<and> length (fst (toolLoop memClient ''main'' [createCall, replaceCall, unknownCall, readCall]
          ([], [], store0))) = 4
   \<and> executeToolCall memClient store0 readCall ''main'' = (failed ''Not Found'', store0)
   \<and> executeToolCall lockedClient store0 uniqueCall ''main''
       = (failed ''Resource not accessible by integration'', store0)
   \<and> (\<exists>b. fst (POST (steady toolRound) memClient ''main'' [Message User ''go''] ''ctx''
                (newClaudeClient Sonnet, (), store0)) = Json b)"
proof -
  let ?cs = "[createCall, replaceCall, unknownCall, readCall]"
  let ?w2 = "store0(''new.txt'' \<mapsto> fileOf ''x'')"
  let ?f = "\<lparr>path = ''f.txt'', content = ''aa'', sha = hashOf ''aa''\<rparr>"
  note t = tool_execution_total [where gh = memClient and branch = "''main''" and w = store0
      and calls = ?cs and api = "steady toolRound" and msgs = "[Message User ''go'']"
      and ctx = "''ctx''" and cl = "newClaudeClient Sonnet" and m = "()"
      and e = "Error ''Not Found''" and call = readCall]
  note t' = tool_execution_total [where gh = memClient and branch = "''main''" and w = ?w2
      and call = unknownCall]
  note t'' = tool_execution_total [where gh = lockedClient and branch = "''main''"
      and w = store0 and w' = store0 and call = uniqueCall and f = ?f
      and e = "Error ''Resource not accessible by integration''"]
  have w2: "worldAfter memClient ''main'' (take 2 ?cs) store0 = ?w2"
    by (simp add: numeral_2_eq_2 executeToolCall_def toolSwitch_def createCall_def
        replaceCall_def noInput_def store0_def updateFile_def memClient_def memWrite_def
        memGetContent_def applyStrReplace_def getFileContent_def fileOf_def hashOf_def
        splitStr_def Let_def)
  have u: "name unknownCall \<notin> {''read_file'', ''str_replace'', ''create_file'', ''search_files''}"
    by (simp add: unknownCall_def)
  have unk: "executeToolCall memClient ?w2 unknownCall ''main''
      = (failed (''Unknown tool: '' @ name unknownCall), ?w2)"
    using t' [THEN conjunct2, THEN conjunct2, THEN conjunct1] u by (rule mp)
  have "2 < length ?cs" by simp
  then have "fst (toolLoop memClient ''main'' ?cs ([], [], store0)) ! 2
      = fst (executeToolCall memClient (worldAfter memClient ''main'' (take 2 ?cs) store0)
          (?cs ! 2) ''main'')"
    using t [THEN conjunct2, THEN conjunct1] by blast
  then have third: "fst (toolLoop memClient ''main'' ?cs ([], [], store0)) ! 2
      = failed ''Unknown tool: frob''"
    using w2 unk by (simp add: unknownCall_def)
  have len: "length (fst (toolLoop memClient ''main'' ?cs ([], [], store0))) = 4"
    using t [THEN conjunct1] by simp
  have n: "name readCall = ''read_file'' \<or> name readCall = ''str_replace''"
    by (simp add: readCall_def)
  have g: "getFileContent memClient store0 (in_path (call_input readCall)) ''main''
      = Inl (Error ''Not Found'')"
    by (simp add: getFileContent_def memClient_def memGetContent_def store0_def readCall_def
        noInput_def)
  have rd: "executeToolCall memClient store0 readCall ''main'' = (failed ''Not Found'', store0)"
    using t [THEN conjunct2, THEN conjunct2, THEN conjunct2, THEN conjunct1, rule_format, OF n g]
    by simp
  have un: "name uniqueCall = ''str_replace''"
    by (simp add: uniqueCall_def)
  have ug: "getFileContent lockedClient store0 (in_path (call_input uniqueCall)) ''main'' = Inr ?f"
    by (simp add: getFileContent_def lockedClient_def memGetContent_def store0_def
        uniqueCall_def noInput_def fileOf_def)
  have ui: "includesStr (content ?f) (old_str (call_input uniqueCall))"
    by (simp add: uniqueCall_def noInput_def)
  have us: "length (splitStr (content ?f) (old_str (call_input uniqueCall))) \<le> 2"
    by (simp add: uniqueCall_def noInput_def splitStr_def)
  have uw: "updateFile lockedClient store0 (in_path (call_input uniqueCall))
      (replaceStr (content ?f) (old_str (call_input uniqueCall)) (new_str (call_input uniqueCall)))
      (''Edit '' @ in_path (call_input uniqueCall)) ''main'' (Some (sha ?f))
      = (Some (Error ''Resource not accessible by integration''), store0)"
    by (simp add: updateFile_def lockedClient_def)
  have wr: "executeToolCall lockedClient store0 uniqueCall ''main''
      = (failed ''Resource not accessible by integration'', store0)"
    using t'' [THEN conjunct2, THEN conjunct2, THEN conjunct2, THEN conjunct2, THEN conjunct2,
        THEN conjunct2, THEN conjunct1, rule_format, OF un ug ui us uw]
    by simp
  have st: "\<forall>s req. \<exists>r s'. steady toolRound s req = (Inr r, s')"
    by (simp add: steady_def)
  have post: "\<exists>b. fst (POST (steady toolRound) memClient ''main'' [Message User ''go''] ''ctx''
                (newClaudeClient Sonnet, (), store0)) = Json b"
    using t [THEN conjunct2, THEN conjunct2, THEN conjunct2, THEN conjunct2, THEN conjunct2,
        THEN conjunct2, THEN conjunct2] st by (rule mp)
  show ?thesis
    using third len rd wr post by (intro conjI)
qed


section \<open>The context loader\<close>


lemma present_iff: "present gh w br p \<longleftrightarrow> (\<exists>f. getFileContent gh w p br = Inr f)"
  by (auto simp: present_def split: sum.splits)

















































text \<open>
  Claim C4. No path is to be fetched twice, also when it is reached from several files or
  entry paths, so that the returned list has no two files of one path. The code adds a path
  to \<^verbatim>\<open>loaded\<close> only when its content has arrived, and a second call of
  \<^verbatim>\<open>loadFile\<close> that asks for the path before that requests it again. Below, the entry
  paths \<^verbatim>\<open>a.ts\<close> and \<^verbatim>\<open>b.ts\<close> both import \<^verbatim>\<open>/c.ts\<close> and the requests are
  answered in the order in which they were sent: \<^verbatim>\<open>/c.ts\<close> is requested twice and is
  twice in the returned list. The cycle of the specification is loaded without a repeated
  request (\<open>cycle_fetched_once\<close>).
\<close>

theorem shared_import_fetched_twice:
  \<open>map_option (map path)
      (getFilesWithImports memClient sharedRepo [''a.ts'', ''b.ts''] ''main'' 2 (inOrder 4))
     = Some [''a.ts'', ''b.ts'', ''/c.ts'', ''/c.ts'']
   \<and> map_option fetched (run memClient sharedRepo ''main'' 2 (inOrder 4) (start [''a.ts'', ''b.ts'']))
     = Some [''a.ts'', ''b.ts'', ''/c.ts'', ''/c.ts'']\<close>
  by code_simp

lemma cycle_fetched_once:
  \<open>map_option (map path) (getFilesWithImports memClient cycleRepo [''/a.ts''] ''main'' 3 (inOrder 2))
     = Some [''/a.ts'', ''/b.ts'']
   \<and> map_option fetched (run memClient cycleRepo ''main'' 3 (inOrder 2) (start [''/a.ts'']))
     = Some [''/a.ts'', ''/b.ts'']\<close>
  by code_simp

end
